theory Spec2Isabelle
  imports Complex_Main "HOL-Library.Sublist" "HOL-Library.Log_Nat"
begin

section \<open>JavaScript values\<close>

text \<open>
  The service is TypeScript running on Node. A number is an IEEE 754 binary64 double:
  \<^verbatim>\<open>NaN\<close>, an infinity, or a finite double \<open>Fin x\<close>, given by the rational \<open>x\<close> that it
  denotes. The two zeros are one value: the comparisons and \<^verbatim>\<open>isNaN\<close> do not tell them
  apart, and \<^verbatim>\<open>x * 10\<close>, \<^verbatim>\<open>Math.round(x)\<close> and \<^verbatim>\<open>x / 10\<close> send a zero to a zero.
\<close>

datatype jsnum = NaN | NegInf | Fin rat | PosInf

text \<open>
  What \<^verbatim>\<open>JSON.parse\<close> can build. A value of type \<^verbatim>\<open>any\<close> read from such an object is a
  \<open>json option\<close>: \<open>None\<close> is \<^verbatim>\<open>undefined\<close> (an absent property).
\<close>

datatype json =
  JNull
  | JBool bool
  | JNum jsnum
  | JStr string
  | JArr "json list"
  | JObj "(string \<times> json) list"

text \<open>
  Everything that can be thrown: \<^verbatim>\<open>new Error(msg)\<close>, the \<^verbatim>\<open>TypeError\<close> and \<^verbatim>\<open>SyntaxError\<close>
  of the language, the repository's \<^verbatim>\<open>CustomError(msg, status)\<close>, and whatever a
  collaborator rejects with (timeout, network, quota).
\<close>

datatype exn =
  Error string
  | TypeError
  | SyntaxError
  | CustomError string nat
  | Rejected string

definition bind :: "exn + 'a \<Rightarrow> ('a \<Rightarrow> exn + 'b) \<Rightarrow> exn + 'b" where
  "bind m f = (case m of Inl e \<Rightarrow> Inl e | Inr x \<Rightarrow> f x)"

subsection \<open>Numbers\<close>

text \<open>The comparison \<^verbatim>\<open>a < b\<close> of two numbers: false as soon as one is \<^verbatim>\<open>NaN\<close>.\<close>

fun num_lt :: "jsnum \<Rightarrow> jsnum \<Rightarrow> bool" where
  "num_lt NaN b = False"
| "num_lt a NaN = False"
| "num_lt NegInf NegInf = False"
| "num_lt NegInf b = True"
| "num_lt (Fin x) (Fin y) = (x < y)"
| "num_lt (Fin x) PosInf = True"
| "num_lt (Fin x) NegInf = False"
| "num_lt PosInf b = False"

definition isNaN :: "jsnum \<Rightarrow> bool" where
  "isNaN n = (n = NaN)"

text \<open>\<^verbatim>\<open>lo <= x && x <= hi\<close>: membership in the closed interval.\<close>

definition num_le :: "jsnum \<Rightarrow> jsnum \<Rightarrow> bool" where
  "num_le a b = (a \<noteq> NaN \<and> b \<noteq> NaN \<and> \<not> num_lt b a)"

definition in_range :: "jsnum \<Rightarrow> jsnum \<Rightarrow> jsnum \<Rightarrow> bool" where
  "in_range x lo hi = (num_le lo x \<and> num_le x hi)"

subsection \<open>Arithmetic on doubles\<close>

text \<open>
  A finite double is \<open>m * 2 ^ e\<close> for integers \<open>m\<close> and \<open>e\<close> with \<open>\<bar>m\<bar> < 2 ^ 53\<close> and
  \<open>- 1074 \<le> e \<le> 971\<close>. An arithmetic operation returns its exact result rounded to the
  nearest double, a tie going to the even \<open>m\<close> and a result of magnitude \<open>2 ^ 1024\<close> or more to
  an infinity (round to nearest, ties to even).

  \<open>binade a\<close> is the integer \<open>k\<close> with \<open>2 ^ k \<le> a < 2 ^ (k + 1)\<close>, for a positive \<open>a\<close>;
  \<^const>\<open>bitlen\<close> is the number of binary digits of a positive integer.
\<close>

definition binade :: "rat \<Rightarrow> int" where
  "binade a = (if 1 \<le> a then bitlen \<lfloor>a\<rfloor> - 1 else - bitlen (\<lceil>1 / a\<rceil> - 1))"

text \<open>The nearest integer, a tie going to the even one.\<close>

definition round_half_even :: "rat \<Rightarrow> int" where
  "round_half_even x =
     (let f = \<lfloor>x\<rfloor>; d = x - of_int f
      in if d < 1/2 then f else if 1/2 < d then f + 1 else if even f then f else f + 1)"

text \<open>
  The exponent \<open>e\<close> of the doubles around \<open>x\<close>: 53 binary digits from the leading one of
  \<open>x\<close> down, and no lower than the exponent of the subnormal doubles. The doubles there are
  the multiples of \<open>2 ^ e\<close>, and \<open>nearest64 x\<close> is the nearest of them.
\<close>

definition ulp_exponent :: "rat \<Rightarrow> int" where
  "ulp_exponent x = max (binade \<bar>x\<bar> - 52) (- 1074)"

definition nearest64 :: "rat \<Rightarrow> rat" where
  "nearest64 x =
     (if x = 0 then 0
      else let ulp = 2 powi ulp_exponent x in of_int (round_half_even (x / ulp)) * ulp)"

definition overflow_threshold :: rat where
  "overflow_threshold = 2 ^ 1024"

definition binary64 :: "rat \<Rightarrow> jsnum" where
  "binary64 x =
     (let y = nearest64 x
      in if overflow_threshold \<le> y then PosInf
         else if y \<le> - overflow_threshold then NegInf
         else Fin y)"

text \<open>
  \<^verbatim>\<open>Math.round(x)\<close> is the nearest integer, a tie going up: \<open>\<lfloor>x + 1/2\<rfloor>\<close>, which is
  \<^const>\<open>round\<close>; it is exact, the nearest integer of a double being a double. \<^verbatim>\<open>x * 10\<close> and
  \<^verbatim>\<open>x / 10\<close> round their exact result to a double, and leave \<^verbatim>\<open>NaN\<close> and the infinities as
  they are.
\<close>

fun Math_round :: "jsnum \<Rightarrow> jsnum" where
  "Math_round (Fin x) = Fin (of_int (round x))"
| "Math_round n = n"

fun times10 :: "jsnum \<Rightarrow> jsnum" where
  "times10 (Fin x) = binary64 (x * 10)"
| "times10 n = n"

fun div10 :: "jsnum \<Rightarrow> jsnum" where
  "div10 (Fin x) = binary64 (x / 10)"
| "div10 n = n"

text \<open>\<^verbatim>\<open>Math.round(num * 10) / 10\<close>\<close>

definition round1 :: "jsnum \<Rightarrow> jsnum" where
  "round1 num = div10 (Math_round (times10 num))"

subsection \<open>Strings\<close>

definition dq :: char where
  "dq = CHR 0x22"

definition nl :: char where
  "nl = CHR 0x0A"

text \<open>
  Strings are taken as sequences of ASCII code units: \<^verbatim>\<open>toLowerCase\<close> maps \<open>A\<close>..\<open>Z\<close> to
  \<open>a\<close>..\<open>z\<close> and leaves every other unit alone.
\<close>

definition lower_char :: "char \<Rightarrow> char" where
  "lower_char c =
     (let n = (of_char c :: nat) in if 65 \<le> n \<and> n \<le> 90 then char_of (n + 32) else c)"

definition toLowerCase :: "string \<Rightarrow> string" where
  "toLowerCase s = map lower_char s"

text \<open>\<^verbatim>\<open>text.includes(keyword)\<close>: the keyword is a contiguous part of the text.\<close>

fun str_includes :: "string \<Rightarrow> string \<Rightarrow> bool" where
  "str_includes [] k = (k = [])"
| "str_includes (c # cs) k = (prefix k (c # cs) \<or> str_includes cs k)"

text \<open>The white space of \<^verbatim>\<open>\s\<close> among the ASCII units: tab, LF, VT, FF, CR and the space.\<close>

definition is_space :: "char \<Rightarrow> bool" where
  "is_space c = (c \<in> set [CHR 0x09, CHR 0x0A, CHR 0x0B, CHR 0x0C, CHR 0x0D, CHR 0x20])"

text \<open>
  \<^verbatim>\<open>text.split(/\s+/)\<close>: the pieces between the runs of white space. A run at the start or
  at the end leaves an empty piece there, and the empty text is one empty piece.
  \<open>cur\<close> is the piece being read, \<open>sep\<close> says that the last unit read was white space.
\<close>

fun split_go :: "string \<Rightarrow> bool \<Rightarrow> string \<Rightarrow> string list" where
  "split_go cur sep [] = [cur]"
| "split_go cur sep (c # cs) =
     (if is_space c then (if sep then split_go [] True cs else cur # split_go [] True cs)
      else split_go (cur @ [c]) False cs)"

definition split_ws :: "string \<Rightarrow> string list" where
  "split_ws s = split_go [] False s"

text \<open>\<^verbatim>\<open>[...new Set(words)]\<close>: the first occurrence of every word, in order.\<close>

definition uniq :: "'a list \<Rightarrow> 'a list" where
  "uniq xs = fold (\<lambda>x seen. if x \<in> set seen then seen else seen @ [x]) xs []"

subsection \<open>Reading a parsed value\<close>

text \<open>
  \<^verbatim>\<open>obj.key\<close>: reading a property of \<^verbatim>\<open>null\<close> throws a \<^verbatim>\<open>TypeError\<close>; an object gives its
  own entry; none of the keys the service reads is inherited by a number, a string, a
  boolean or an array, which give \<^verbatim>\<open>undefined\<close>.
\<close>

fun get_prop :: "json \<Rightarrow> string \<Rightarrow> exn + json option" where
  "get_prop JNull k = Inl TypeError"
| "get_prop (JObj kvs) k = Inr (map_of kvs k)"
| "get_prop v k = Inr None"

text \<open>Truthiness, as \<^verbatim>\<open>!x\<close>, \<^verbatim>\<open>x || y\<close> and \<^verbatim>\<open>if (x)\<close> read it.\<close>

fun truthy :: "json option \<Rightarrow> bool" where
  "truthy None = False"
| "truthy (Some JNull) = False"
| "truthy (Some (JBool b)) = b"
| "truthy (Some (JNum n)) = (n \<noteq> NaN \<and> n \<noteq> Fin 0)"
| "truthy (Some (JStr s)) = (s \<noteq> [])"
| "truthy (Some (JArr xs)) = True"
| "truthy (Some (JObj kvs)) = True"

fun isArray :: "json option \<Rightarrow> bool" where
  "isArray (Some (JArr xs)) = True"
| "isArray v = False"

section \<open>The platform\<close>

text \<open>
  What the service calls and the repository does not define: the built-ins of the
  language (\<^verbatim>\<open>JSON.parse\<close>, \<^verbatim>\<open>JSON.stringify\<close>, the conversions between strings and numbers,
  \<^verbatim>\<open>Buffer\<close>'s base64, \<^verbatim>\<open>new Date\<close>) and the \<^verbatim>\<open>natural\<close> library (tokenizer, Porter stemmer,
  AFINN sentiment). They are parameters: every theorem below holds whatever they compute.
  \<^verbatim>\<open>JSON.parse\<close> gives \<open>None\<close> where it throws its \<^verbatim>\<open>SyntaxError\<close>; \<^verbatim>\<open>JSON.stringify\<close> can
  throw on what a caller hands in (a cyclic object).
\<close>

record platform =
  JSON_parse :: "string \<Rightarrow> json option"
  JSON_stringify :: "json \<Rightarrow> exn + string"
  JSON_stringify_indent :: "json \<Rightarrow> nat \<Rightarrow> exn + string"
  StringToNumber :: "string \<Rightarrow> jsnum"
  NumberToString :: "jsnum \<Rightarrow> string"
  base64 :: "string \<Rightarrow> string"
  Date_valid :: "json \<Rightarrow> exn + bool"
  tokenize :: "string \<Rightarrow> string list option"
  stem :: "string \<Rightarrow> string"
  getSentiment :: "string list \<Rightarrow> jsnum"

subsection \<open>Coercion to a number\<close>

text \<open>
  \<^verbatim>\<open>Number(value)\<close> on a value that is not a primitive first turns it into a string
  (ECMAScript's OrdinaryToPrimitive). An array is joined with commas, \<^verbatim>\<open>null\<close> elements
  giving the empty string. A plain object gives \<^verbatim>\<open>[object Object]\<close> through the inherited
  \<^verbatim>\<open>toString\<close>; but a parsed object that has a key \<^verbatim>\<open>toString\<close> of its own hides the
  inherited method behind a value that cannot be called, and the conversion throws a
  \<^verbatim>\<open>TypeError\<close>.
\<close>

fun ToString :: "platform \<Rightarrow> json \<Rightarrow> exn + string"
  and join :: "platform \<Rightarrow> json list \<Rightarrow> exn + string"
where
  "ToString P JNull = Inr ''null''"
| "ToString P (JBool b) = Inr (if b then ''true'' else ''false'')"
| "ToString P (JNum n) = Inr (NumberToString P n)"
| "ToString P (JStr s) = Inr s"
| "ToString P (JArr xs) = join P xs"
| "ToString P (JObj kvs) =
     (if ''toString'' \<in> set (map fst kvs) then Inl TypeError else Inr ''[object Object]'')"
| "join P [] = Inr []"
| "join P (x # xs) =
     bind (if x = JNull then Inr [] else ToString P x) (\<lambda>s.
       if xs = [] then Inr s else bind (join P xs) (\<lambda>r. Inr (s @ '','' @ r)))"

fun Number :: "platform \<Rightarrow> json option \<Rightarrow> exn + jsnum" where
  "Number P None = Inr NaN"
| "Number P (Some JNull) = Inr (Fin 0)"
| "Number P (Some (JBool b)) = Inr (Fin (if b then 1 else 0))"
| "Number P (Some (JNum n)) = Inr n"
| "Number P (Some (JStr s)) = Inr (StringToNumber P s)"
| "Number P (Some v) = bind (ToString P v) (\<lambda>s. Inr (StringToNumber P s))"

section \<open>Validator\<close>

text \<open>
  \<^verbatim>\<open>validateRange(value, min, max, defaultValue)\<close>, with the throw of the coercion as a
  result.
\<close>

definition validateRange :: "platform \<Rightarrow> json option \<Rightarrow> jsnum \<Rightarrow> jsnum \<Rightarrow> jsnum \<Rightarrow> exn + jsnum" where
  "validateRange P v lo hi defaultValue =
     bind (Number P v) (\<lambda>num.
       if isNaN num \<or> num_lt num lo \<or> num_lt hi num then Inr defaultValue
       else Inr (round1 num))"

text \<open>\<^verbatim>\<open>validValues.includes(value)\<close> compares without coercion: only a string can be found.\<close>

definition validateComplexity :: "json option \<Rightarrow> string" where
  "validateComplexity v =
     (case v of
        Some (JStr s) \<Rightarrow> if s \<in> set [''low'', ''medium'', ''high''] then s else ''medium''
      | _ \<Rightarrow> ''medium'')"

definition validateTimeSlot :: "json option \<Rightarrow> string" where
  "validateTimeSlot v =
     (case v of
        Some (JStr s) \<Rightarrow>
          if s \<in> set [''morning'', ''afternoon'', ''evening'', ''flexible''] then s
          else ''flexible''
      | _ \<Rightarrow> ''flexible'')"

definition validateDate :: "platform \<Rightarrow> json option \<Rightarrow> exn + json" where
  "validateDate P dateString =
     (case dateString of
        None \<Rightarrow> Inr JNull
      | Some d \<Rightarrow>
          if \<not> truthy (Some d) then Inr JNull
          else bind (Date_valid P d) (\<lambda>ok. Inr (if ok then d else JNull)))"

text \<open>\<^verbatim>\<open>calculateConfidenceScore(analysis)\<close>\<close>

fun array_length :: "json option \<Rightarrow> nat" where
  "array_length (Some (JArr xs)) = length xs"
| "array_length v = 0"

definition calculateConfidenceScore :: "json \<Rightarrow> exn + int" where
  "calculateConfidenceScore analysis =
     bind (get_prop analysis ''priority'') (\<lambda>a_priority.
     bind (get_prop analysis ''estimatedHours'') (\<lambda>a_estimatedHours.
     bind (get_prop analysis ''tags'') (\<lambda>a_tags.
     bind (get_prop analysis ''suggestedSubtasks'') (\<lambda>a_suggestedSubtasks.
       let score = 85;
           score = (if \<not> truthy a_priority then score - 10 else score);
           score = (if \<not> truthy a_estimatedHours then score - 10 else score);
           score = (if \<not> isArray a_tags \<or> array_length a_tags = 0 then score - 5 else score);
           score = (if \<not> isArray a_suggestedSubtasks then score - 5 else score)
       in Inr (max (min score 99) 60)))))"

section \<open>Task analysis\<close>

record TaskAnalysis =
  priority :: jsnum
  estimatedHours :: jsnum
  complexity :: string
  sentiment :: string
  tags :: "json list"
  deadlineUrgency :: jsnum
  suggestedSubtasks :: "json list"
  optimalTimeSlot :: string
  confidenceScore :: int

text \<open>The object literal that \<^verbatim>\<open>JSON.stringify(finalAnalysis)\<close> serializes.\<close>

definition analysis_json :: "TaskAnalysis \<Rightarrow> json" where
  "analysis_json a =
     JObj [(''priority'', JNum (priority a)),
           (''estimatedHours'', JNum (estimatedHours a)),
           (''complexity'', JStr (complexity a)),
           (''sentiment'', JStr (sentiment a)),
           (''tags'', JArr (tags a)),
           (''deadlineUrgency'', JNum (deadlineUrgency a)),
           (''suggestedSubtasks'', JArr (suggestedSubtasks a)),
           (''optimalTimeSlot'', JStr (optimalTimeSlot a)),
           (''confidenceScore'', JNum (Fin (of_int (confidenceScore a))))]"

subsection \<open>Heuristic fallback\<close>

definition stopWords :: "string list" where
  "stopWords =
     [''the'', ''and'', ''but'', ''for'', ''are'', ''you'', ''all'', ''can'', ''had'', ''her'',
      ''was'', ''one'', ''our'', ''out'', ''day'', ''get'', ''has'', ''him'', ''his'', ''how'',
      ''its'', ''may'', ''new'', ''now'', ''old'', ''see'', ''two'', ''way'', ''who'', ''boy'',
      ''did'', ''man'', ''use'', ''what'', ''with'', ''have'', ''from'', ''they'', ''know'',
      ''want'', ''been'', ''good'', ''much'', ''some'', ''time'', ''very'', ''when'', ''come'',
      ''here'', ''just'', ''like'', ''long'', ''make'', ''many'', ''over'', ''such'', ''take'',
      ''than'', ''them'', ''well'', ''were'']"

text \<open>
  \<^verbatim>\<open>extractKeywords(text)\<close>. The regular expression is anchored at both ends and ignores
  case: it matches a word that is, lower-cased, one of the stop words.
\<close>

definition extractKeywords :: "string \<Rightarrow> string list" where
  "extractKeywords text =
     (let words =
        filter (\<lambda>word. toLowerCase word \<notin> set stopWords)
          (filter (\<lambda>word. length word > 3) (split_ws text))
      in take 5 (uniq words))"

definition urgentKeywords :: "string list" where
  "urgentKeywords =
     [''urgent'', ''asap'', ''immediately'', ''critical'', ''emergency'', ''deadline'']"

definition complexKeywords :: "string list" where
  "complexKeywords =
     [''refactor'', ''architecture'', ''design'', ''research'', ''analysis'', ''integration'']"

definition fallbackAnalysis :: "string \<Rightarrow> string \<Rightarrow> TaskAnalysis" where
  "fallbackAnalysis title description =
     (let text = toLowerCase (title @ '' '' @ description);
          isUrgent = list_ex (\<lambda>keyword. str_includes text keyword) urgentKeywords;
          isComplex = list_ex (\<lambda>keyword. str_includes text keyword) complexKeywords
      in \<lparr> priority = Fin (if isUrgent then 8 else if isComplex then 6 else 4),
           estimatedHours = Fin (if isComplex then 6 else 2),
           complexity = (if isComplex then ''high'' else ''medium''),
           sentiment = ''neutral'',
           tags = map JStr (extractKeywords text),
           deadlineUrgency = Fin (if isUrgent then 9 else 5),
           suggestedSubtasks = [],
           optimalTimeSlot = ''flexible'',
           confidenceScore = 70 \<rparr>)"

subsection \<open>Local sentiment\<close>

definition analyzeSentiment :: "platform \<Rightarrow> string \<Rightarrow> jsnum" where
  "analyzeSentiment P text =
     (case tokenize P (toLowerCase text) of
        None \<Rightarrow> Fin 0
      | Some tokens \<Rightarrow>
          if length tokens = 0 then Fin 0 else getSentiment P (map (stem P) tokens))"

text \<open>\<^verbatim>\<open>sentimentScore > 0 ? 'positive' : sentimentScore < 0 ? 'negative' : 'neutral'\<close>\<close>

definition sentiment_label :: "jsnum \<Rightarrow> string" where
  "sentiment_label sentimentScore =
     (if num_lt (Fin 0) sentimentScore then ''positive''
      else if num_lt sentimentScore (Fin 0) then ''negative''
      else ''neutral'')"

subsection \<open>Validation of a parsed reply\<close>

text \<open>
  The object literal \<^verbatim>\<open>finalAnalysis\<close> of \<^verbatim>\<open>analyzeTask\<close>, its properties evaluated in the
  order they are written; \<^verbatim>\<open>slice(0, n)\<close> on an array is \<^const>\<open>take\<close>.
\<close>

fun slice_or_empty :: "json option \<Rightarrow> nat \<Rightarrow> json list" where
  "slice_or_empty (Some (JArr xs)) n = take n xs"
| "slice_or_empty v n = []"

definition finalAnalysis :: "platform \<Rightarrow> json \<Rightarrow> string \<Rightarrow> exn + TaskAnalysis" where
  "finalAnalysis P analysis description =
     (let sentimentScore = analyzeSentiment P description in
      bind (get_prop analysis ''priority'') (\<lambda>a_priority.
      bind (validateRange P a_priority (Fin 1) (Fin 10) (Fin 5)) (\<lambda>v_priority.
      bind (get_prop analysis ''estimatedHours'') (\<lambda>a_estimatedHours.
      bind (validateRange P a_estimatedHours (Fin (1/2)) (Fin 40) (Fin 2)) (\<lambda>v_estimatedHours.
      bind (get_prop analysis ''complexity'') (\<lambda>a_complexity.
      bind (get_prop analysis ''tags'') (\<lambda>a_tags.
      bind (get_prop analysis ''deadlineUrgency'') (\<lambda>a_deadlineUrgency.
      bind (validateRange P a_deadlineUrgency (Fin 1) (Fin 10) (Fin 5)) (\<lambda>v_deadlineUrgency.
      bind (get_prop analysis ''suggestedSubtasks'') (\<lambda>a_suggestedSubtasks.
      bind (get_prop analysis ''optimalTimeSlot'') (\<lambda>a_optimalTimeSlot.
      bind (calculateConfidenceScore analysis) (\<lambda>v_confidenceScore.
        Inr \<lparr> priority = v_priority,
              estimatedHours = v_estimatedHours,
              complexity = validateComplexity a_complexity,
              sentiment = sentiment_label sentimentScore,
              tags = slice_or_empty a_tags 8,
              deadlineUrgency = v_deadlineUrgency,
              suggestedSubtasks = slice_or_empty a_suggestedSubtasks 5,
              optimalTimeSlot = validateTimeSlot a_optimalTimeSlot,
              confidenceScore = v_confidenceScore \<rparr>))))))))))))"

subsection \<open>Response parser\<close>

text \<open>
  \<^verbatim>\<open>aiResponse.match(/\{[\s\S]*\}/)\<close>: the match starts at the first opening brace; the
  star is greedy, so it ends at the last closing brace after it. There is no match when
  no closing brace follows the first opening one.
\<close>

definition json_region :: "string \<Rightarrow> string option" where
  "json_region s =
     (case dropWhile (\<lambda>c. c \<noteq> CHR ''{'') s of
        [] \<Rightarrow> None
      | c # rest \<Rightarrow>
          (case rev (dropWhile (\<lambda>c. c \<noteq> CHR ''}'') (rev rest)) of
             [] \<Rightarrow> None
           | body \<Rightarrow> Some (c # body)))"

text \<open>
  The inner \<^verbatim>\<open>try\<close> block of \<^verbatim>\<open>analyzeTask\<close>: the match, then \<^verbatim>\<open>JSON.parse\<close> of it; the
  two throws are the failures of the parser.
\<close>

definition parse_response :: "platform \<Rightarrow> string \<Rightarrow> exn + json" where
  "parse_response P aiResponse =
     (case json_region aiResponse of
        None \<Rightarrow> Inl (Error ''No JSON found in response'')
      | Some jsonMatch \<Rightarrow>
          (case JSON_parse P jsonMatch of None \<Rightarrow> Inl SyntaxError | Some v \<Rightarrow> Inr v))"

section \<open>Collaborators and effects\<close>

text \<open>
  The remote inference client and the cache. A request to the client is the argument of
  \<^verbatim>\<open>openai.chat.completions.create\<close>; a completion is its list of choices, and
  \<^verbatim>\<open>response.choices[0]?.message?.content\<close> reads the text of the first one.
\<close>

record chat_request =
  model :: string
  messages :: "(string \<times> string) list"
  temperature :: rat
  max_tokens :: nat
  top_p :: "rat option"

datatype message = Message "string option"

datatype choice = Choice "message option"

fun first_content :: "choice list \<Rightarrow> string option" where
  "first_content [] = None"
| "first_content (Choice None # cs) = None"
| "first_content (Choice (Some (Message c)) # cs) = c"

text \<open>
  One behaviour of the collaborators: what each call answers, or the exception it rejects
  with. \<^verbatim>\<open>RedisClient.get\<close> answers a string or nothing.
\<close>

record collab =
  RedisClient_get :: "string \<Rightarrow> exn + string option"
  RedisClient_setex :: "string \<Rightarrow> nat \<Rightarrow> string \<Rightarrow> exn + unit"
  openai_create :: "chat_request \<Rightarrow> exn + choice list"

text \<open>
  What a call of the service does, in order: the cache reads, the prompts built for the
  analysis, the remote calls and the cache writes, each with its arguments.
\<close>

datatype event =
  CacheGet string
  | PromptBuilt string
  | RemoteCall chat_request
  | CacheSetex string nat string

text \<open>
  A computation is the events it performed and its result: a value, or the exception
  that ended it. \<open>io_catch\<close> is \<^verbatim>\<open>try { ... } catch (error) { ... }\<close>.
\<close>

type_synonym 'a io = "event list \<times> (exn + 'a)"

definition io_return :: "'a \<Rightarrow> 'a io" where
  "io_return x = ([], Inr x)"

definition io_throw :: "exn \<Rightarrow> 'a io" where
  "io_throw e = ([], Inl e)"

definition io_lift :: "exn + 'a \<Rightarrow> 'a io" where
  "io_lift r = ([], r)"

definition io_bind :: "'a io \<Rightarrow> ('a \<Rightarrow> 'b io) \<Rightarrow> 'b io" where
  "io_bind m f =
     (case m of
        (tr, Inl e) \<Rightarrow> (tr, Inl e)
      | (tr, Inr x) \<Rightarrow> (case f x of (tr', r) \<Rightarrow> (tr @ tr', r)))"

definition io_catch :: "'a io \<Rightarrow> (exn \<Rightarrow> 'a io) \<Rightarrow> 'a io" where
  "io_catch m handler =
     (case m of
        (tr, Inl e) \<Rightarrow> (case handler e of (tr', r) \<Rightarrow> (tr @ tr', r))
      | (tr, Inr x) \<Rightarrow> (tr, Inr x))"

definition cache_get :: "collab \<Rightarrow> string \<Rightarrow> string option io" where
  "cache_get E k = ([CacheGet k], RedisClient_get E k)"

definition cache_setex :: "collab \<Rightarrow> string \<Rightarrow> nat \<Rightarrow> string \<Rightarrow> unit io" where
  "cache_setex E k ttl v = ([CacheSetex k ttl v], RedisClient_setex E k ttl v)"

definition remote_create :: "collab \<Rightarrow> chat_request \<Rightarrow> choice list io" where
  "remote_create E req = ([RemoteCall req], openai_create E req)"

text \<open>
  Truthiness of a string that may be absent, as \<^verbatim>\<open>if (cached)\<close> and
  \<^verbatim>\<open>!process.env.OPENAI_API_KEY\<close> read it: the string is there and is not empty.
\<close>

fun truthy_string :: "string option \<Rightarrow> bool" where
  "truthy_string None = False"
| "truthy_string (Some s) = (s \<noteq> [])"

text \<open>
  \<^verbatim>\<open>initialize()\<close>: without an API key in the environment the flag \<^verbatim>\<open>isInitialized\<close>
  stays as it is (false at start); with one it becomes true.
\<close>

definition initialize :: "string option \<Rightarrow> bool \<Rightarrow> bool" where
  "initialize OPENAI_API_KEY isInitialized =
     (if \<not> truthy_string OPENAI_API_KEY then isInitialized else True)"

section \<open>Prompts\<close>

definition quoted :: "string \<Rightarrow> string" where
  "quoted s = dq # s @ [dq]"

fun unlines :: "string list \<Rightarrow> string" where
  "unlines [] = []"
| "unlines [l] = l"
| "unlines (l # ls) = l @ nl # unlines ls"

definition buildAnalysisPrompt :: "platform \<Rightarrow> string \<Rightarrow> string \<Rightarrow> json option \<Rightarrow> exn + string" where
  "buildAnalysisPrompt P title description ctx =
     bind (case ctx of
             None \<Rightarrow> Inr []
           | Some c \<Rightarrow>
               if truthy (Some c)
               then bind (JSON_stringify P c) (\<lambda>s. Inr (''Context: '' @ s))
               else Inr [])
       (\<lambda>context_line. Inr (unlines
          [''Analyze this task comprehensively:'',
           [],
           ''Title: '' @ quoted title,
           ''Description: '' @ quoted description,
           context_line,
           [],
           ''Provide analysis as JSON:'',
           ''{'',
           ''  '' @ quoted ''priority'' @ '': <1-10, business impact and urgency>,'',
           ''  '' @ quoted ''estimatedHours'' @ '': <realistic hours needed>,'',
           ''  '' @ quoted ''complexity'' @ '': '' @ quoted ''low|medium|high'' @ '','',
           ''  '' @ quoted ''deadlineUrgency'' @ '': <1-10, how time-sensitive>,'',
           ''  '' @ quoted ''tags'' @ '': ['' @ quoted ''relevant'' @ '', '' @ quoted ''keywords''
              @ '', '' @ quoted ''max8'' @ ''],'',
           ''  '' @ quoted ''suggestedSubtasks'' @ '': ['' @ quoted ''subtask1'' @ '', ''
              @ quoted ''subtask2'' @ '', '' @ quoted ''max5'' @ ''],'',
           ''  '' @ quoted ''optimalTimeSlot'' @ '': ''
              @ quoted ''morning|afternoon|evening|flexible'',
           ''}'',
           [],
           ''Consider: technical complexity, dependencies, business value, time sensitivity, required skills.'']))"

definition analysis_system_prompt :: string where
  "analysis_system_prompt =
     ''You are an expert productivity consultant and project manager with deep understanding of task complexity, time estimation, and workflow optimization. Analyze tasks comprehensively and provide actionable insights.''"

definition analysis_request :: "string \<Rightarrow> chat_request" where
  "analysis_request prompt =
     \<lparr> model = ''gpt-4'',
       messages = [(''system'', analysis_system_prompt), (''user'', prompt)],
       temperature = 3/10, max_tokens = 800, top_p = Some (9/10) \<rparr>"

definition indent8 :: "string \<Rightarrow> string" where
  "indent8 l = ''        '' @ l"

definition suggestions_prompt :: "platform \<Rightarrow> string \<Rightarrow> jsnum \<Rightarrow> string" where
  "suggestions_prompt P ctx limit =
     unlines
       [''Based on this user context: '' @ quoted ctx,
        indent8 (''Generate '' @ NumberToString P limit
           @ '' specific, actionable task suggestions that would be valuable and relevant.''),
        [],
        indent8 ''Return ONLY a JSON array of strings, no other text.'',
        indent8 ''Make them practical, immediately actionable, and varied in scope.'',
        indent8 ''Consider different areas: planning, execution, review, optimization, learning.'',
        [],
        indent8 (''Example format: ['' @ quoted ''Task 1'' @ '', '' @ quoted ''Task 2'' @ '', ''
           @ quoted ''Task 3'' @ '']'')]"

definition suggestions_request :: "string \<Rightarrow> chat_request" where
  "suggestions_request prompt =
     \<lparr> model = ''gpt-4'', messages = [(''user'', prompt)],
       temperature = 7/10, max_tokens = 400, top_p = None \<rparr>"



definition voice_prompt :: "string \<Rightarrow> string" where
  "voice_prompt transcription =
     unlines
       [''Convert this voice transcription into a structured task:'',
        indent8 (quoted transcription),
        [],
        indent8 ''Extract and return JSON with:'',
        indent8 ''{'',
        indent8 (''  '' @ quoted ''title'' @ '': ''
           @ quoted ''brief, actionable title (max 100 chars)'' @ '',''),
        indent8 (''  '' @ quoted ''description'' @ '': ''
           @ quoted ''detailed description based on transcription'' @ '',''),
        indent8 (''  '' @ quoted ''priority'' @ '': number 1-10,''),
        indent8 (''  '' @ quoted ''estimatedHours'' @ '': number,''),
        indent8 (''  '' @ quoted ''dueDate'' @ '': ''
           @ quoted ''YYYY-MM-DD or null if not mentioned'' @ '',''),
        indent8 (''  '' @ quoted ''tags'' @ '': ['' @ quoted ''tag1'' @ '', '' @ quoted ''tag2''
           @ ''],''),
        indent8 (''  '' @ quoted ''category'' @ '': ''
           @ quoted ''work|personal|learning|health|other''),
        indent8 ''}'',
        [],
        indent8 ''If transcription is unclear, make reasonable assumptions.'',
        indent8 ''Return ONLY the JSON object.'']"

definition voice_request :: "string \<Rightarrow> chat_request" where
  "voice_request prompt =
     \<lparr> model = ''gpt-4'', messages = [(''user'', prompt)],
       temperature = 3/10, max_tokens = 500, top_p = None \<rparr>"

section \<open>The service\<close>

text \<open>
  The flag \<^verbatim>\<open>isInitialized\<close> is an argument of every operation. Each operation is its
  \<^verbatim>\<open>try\<close> block, every throw of the source a failing branch, under its \<^verbatim>\<open>catch\<close>.
\<close>

definition json_parse_io :: "platform \<Rightarrow> string \<Rightarrow> json io" where
  "json_parse_io P s =
     (case JSON_parse P s of None \<Rightarrow> io_throw SyntaxError | Some v \<Rightarrow> io_return v)"

text \<open>\<^verbatim>\<open>content || dflt\<close> on the text of a completion.\<close>

fun content_or :: "string option \<Rightarrow> string \<Rightarrow> string" where
  "content_or None dflt = dflt"
| "content_or (Some s) dflt = (if s = [] then dflt else s)"

subsection \<open>analyzeTask\<close>

text \<open>
  What \<^verbatim>\<open>analyzeTask\<close> returns: the analysis it computed (validated, or the heuristic
  fallback), or whatever \<^verbatim>\<open>JSON.parse(cached)\<close> gave.
\<close>

datatype analysis_result = Computed TaskAnalysis | FromCache json

definition build_prompt :: "platform \<Rightarrow> string \<Rightarrow> string \<Rightarrow> json option \<Rightarrow> string io" where
  "build_prompt P title description ctx =
     (case buildAnalysisPrompt P title description ctx of
        Inl e \<Rightarrow> ([], Inl e)
      | Inr prompt \<Rightarrow> ([PromptBuilt prompt], Inr prompt))"

text \<open>The part of the \<^verbatim>\<open>try\<close> block after the cache check.\<close>

definition analyzeTask_miss ::
  "platform \<Rightarrow> collab \<Rightarrow> string \<Rightarrow> string \<Rightarrow> string \<Rightarrow> json option \<Rightarrow> analysis_result io" where
  "analyzeTask_miss P E cacheKey title description ctx =
     io_bind (build_prompt P title description ctx) (\<lambda>prompt.
     io_bind (remote_create E (analysis_request prompt)) (\<lambda>response.
       case first_content response of
         None \<Rightarrow> io_throw (Error ''Empty response from OpenAI'')
       | Some aiResponse \<Rightarrow>
           if aiResponse = [] then io_throw (Error ''Empty response from OpenAI'')
           else
             (case parse_response P aiResponse of
                Inl parseError \<Rightarrow> io_return (Computed (fallbackAnalysis title description))
              | Inr analysis \<Rightarrow>
                  io_bind (io_lift (finalAnalysis P analysis description)) (\<lambda>final.
                  io_bind (io_lift (JSON_stringify P (analysis_json final))) (\<lambda>serialized.
                  io_bind (cache_setex E cacheKey 3600 serialized) (\<lambda>u.
                    io_return (Computed final)))))))"

definition analysis_cacheKey :: "platform \<Rightarrow> string \<Rightarrow> string \<Rightarrow> string" where
  "analysis_cacheKey P title description = ''task_analysis:'' @ base64 P (title @ description)"

definition analyzeTask_try ::
  "platform \<Rightarrow> bool \<Rightarrow> collab \<Rightarrow> string \<Rightarrow> string \<Rightarrow> json option \<Rightarrow> analysis_result io" where
  "analyzeTask_try P isInitialized E title description ctx =
     (if \<not> isInitialized then io_return (Computed (fallbackAnalysis title description))
      else
        let cacheKey = analysis_cacheKey P title description in
        io_bind (cache_get E cacheKey) (\<lambda>cached.
          case cached of
            None \<Rightarrow> analyzeTask_miss P E cacheKey title description ctx
          | Some s \<Rightarrow>
              if s = [] then analyzeTask_miss P E cacheKey title description ctx
              else io_bind (json_parse_io P s) (\<lambda>v. io_return (FromCache v))))"

definition analyzeTask ::
  "platform \<Rightarrow> bool \<Rightarrow> collab \<Rightarrow> string \<Rightarrow> string \<Rightarrow> json option \<Rightarrow> analysis_result io" where
  "analyzeTask P isInitialized E title description ctx =
     io_catch (analyzeTask_try P isInitialized E title description ctx)
       (\<lambda>error. io_return (Computed (fallbackAnalysis title description)))"

subsection \<open>generateTaskSuggestions\<close>

definition getDefaultSuggestions :: json where
  "getDefaultSuggestions =
     JArr (map JStr
       [''Review and update project documentation'',
        ''Schedule weekly team check-in meeting'',
        ''Conduct code review for recent changes'',
        ''Plan next sprint activities and priorities'',
        ''Update task dependencies and blockers''])"

text \<open>
  \<^verbatim>\<open>xs.slice(0, limit)\<close> for any number: the limit is truncated to an integer (\<^verbatim>\<open>NaN\<close>
  counting as 0), and a negative one counts from the end of the array.
\<close>

fun slice_to :: "'a list \<Rightarrow> jsnum \<Rightarrow> 'a list" where
  "slice_to xs NaN = []"
| "slice_to xs NegInf = []"
| "slice_to xs PosInf = xs"
| "slice_to xs (Fin q) =
     (let k = (if q < 0 then \<lceil>q\<rceil> else \<lfloor>q\<rfloor>) in
      if k < 0 then take (nat (max (int (length xs) + k) 0)) xs else take (nat k) xs)"

definition suggestions_cacheKey :: "platform \<Rightarrow> string \<Rightarrow> string \<Rightarrow> string" where
  "suggestions_cacheKey P userId ctx = ''task_suggestions:'' @ userId @ '':'' @ base64 P ctx"

text \<open>The part of the \<^verbatim>\<open>try\<close> block after the cache check.\<close>

definition generateTaskSuggestions_miss ::
  "platform \<Rightarrow> collab \<Rightarrow> string \<Rightarrow> string \<Rightarrow> jsnum \<Rightarrow> json io" where
  "generateTaskSuggestions_miss P E cacheKey ctx limit =
     io_bind (remote_create E (suggestions_request (suggestions_prompt P ctx limit)))
       (\<lambda>response.
     io_bind (json_parse_io P (content_or (first_content response) ''[]'')) (\<lambda>suggestions.
     io_bind (io_lift (JSON_stringify P suggestions)) (\<lambda>serialized.
     io_bind (cache_setex E cacheKey 1800 serialized) (\<lambda>u.
       io_return
         (case suggestions of
            JArr xs \<Rightarrow> JArr (slice_to xs limit)
          | _ \<Rightarrow> getDefaultSuggestions)))))"

text \<open>The argument \<open>limit\<close> is \<open>None\<close> when the caller leaves it out: the default is 5.\<close>

definition generateTaskSuggestions_try ::
  "platform \<Rightarrow> bool \<Rightarrow> collab \<Rightarrow> string \<Rightarrow> string \<Rightarrow> jsnum option \<Rightarrow> json io" where
  "generateTaskSuggestions_try P isInitialized E userId ctx limit_arg =
     (let limit = (case limit_arg of None \<Rightarrow> Fin 5 | Some l \<Rightarrow> l) in
      if \<not> isInitialized then io_return getDefaultSuggestions
      else
        let cacheKey = suggestions_cacheKey P userId ctx in
        io_bind (cache_get E cacheKey) (\<lambda>cached.
          case cached of
            None \<Rightarrow> generateTaskSuggestions_miss P E cacheKey ctx limit
          | Some s \<Rightarrow>
              if s = [] then generateTaskSuggestions_miss P E cacheKey ctx limit
              else json_parse_io P s))"

definition generateTaskSuggestions ::
  "platform \<Rightarrow> bool \<Rightarrow> collab \<Rightarrow> string \<Rightarrow> string \<Rightarrow> jsnum option \<Rightarrow> json io" where
  "generateTaskSuggestions P isInitialized E userId ctx limit_arg =
     io_catch (generateTaskSuggestions_try P isInitialized E userId ctx limit_arg)
       (\<lambda>error. io_return getDefaultSuggestions)"

subsection \<open>generateProductivityInsights\<close>




subsection \<open>parseVoiceToTask\<close>

text \<open>\<^verbatim>\<open>x || dflt\<close> on a property.\<close>

fun or_else :: "json option \<Rightarrow> json \<Rightarrow> json" where
  "or_else None dflt = dflt"
| "or_else (Some v) dflt = (if truthy (Some v) then v else dflt)"

text \<open>The object literal that \<^verbatim>\<open>parseVoiceToTask\<close> returns.\<close>

definition voice_task :: "platform \<Rightarrow> json \<Rightarrow> string \<Rightarrow> exn + json" where
  "voice_task P taskData transcription =
     bind (get_prop taskData ''title'') (\<lambda>t_title.
     bind (get_prop taskData ''description'') (\<lambda>t_description.
     bind (get_prop taskData ''priority'') (\<lambda>t_priority.
     bind (validateRange P t_priority (Fin 1) (Fin 10) (Fin 5)) (\<lambda>v_priority.
     bind (get_prop taskData ''estimatedHours'') (\<lambda>t_estimatedHours.
     bind (validateRange P t_estimatedHours (Fin (1/2)) (Fin 20) (Fin 1)) (\<lambda>v_estimatedHours.
     bind (get_prop taskData ''dueDate'') (\<lambda>t_dueDate.
     bind (validateDate P t_dueDate) (\<lambda>v_dueDate.
     bind (get_prop taskData ''tags'') (\<lambda>t_tags.
     bind (get_prop taskData ''category'') (\<lambda>t_category.
       Inr (JObj
         [(''title'', or_else t_title (JStr ''Voice Task'')),
          (''description'', or_else t_description (JStr transcription)),
          (''priority'', JNum v_priority),
          (''estimatedHours'', JNum v_estimatedHours),
          (''dueDate'', v_dueDate),
          (''tags'',
             JArr (if isArray t_tags then slice_or_empty t_tags 5 else [JStr ''voice''])),
          (''category'', or_else t_category (JStr ''other''))])))))))))))"

definition parseVoiceToTask_try :: "platform \<Rightarrow> bool \<Rightarrow> collab \<Rightarrow> string \<Rightarrow> json io" where
  "parseVoiceToTask_try P isInitialized E transcription =
     (if \<not> isInitialized then io_throw (CustomError ''AI service not available'' 503)
      else
        io_bind (remote_create E (voice_request (voice_prompt transcription))) (\<lambda>response.
        io_bind (json_parse_io P (content_or (first_content response) ''{}'')) (\<lambda>taskData.
          io_lift (voice_task P taskData transcription))))"

definition parseVoiceToTask :: "platform \<Rightarrow> bool \<Rightarrow> collab \<Rightarrow> string \<Rightarrow> json io" where
  "parseVoiceToTask P isInitialized E transcription =
     io_catch (parseVoiceToTask_try P isInitialized E transcription)
       (\<lambda>error. io_throw (CustomError ''Failed to process voice input'' 500))"

section \<open>The specification's side\<close>

text \<open>
  The declared ranges of a \<^verbatim>\<open>TaskAnalysis\<close> (section 3 of the specification).
\<close>

definition valid_analysis :: "TaskAnalysis \<Rightarrow> bool" where
  "valid_analysis a =
     (in_range (priority a) (Fin 1) (Fin 10)
      \<and> in_range (estimatedHours a) (Fin (1/2)) (Fin 40)
      \<and> complexity a \<in> {''low'', ''medium'', ''high''}
      \<and> sentiment a \<in> {''positive'', ''negative'', ''neutral''}
      \<and> length (tags a) \<le> 8
      \<and> in_range (deadlineUrgency a) (Fin 1) (Fin 10)
      \<and> length (suggestedSubtasks a) \<le> 5
      \<and> optimalTimeSlot a \<in> {''morning'', ''afternoon'', ''evening'', ''flexible''}
      \<and> 60 \<le> confidenceScore a \<and> confidenceScore a \<le> 99)"

text \<open>
  The response parser as section 4.4 words it: the first balanced bracketed region, an
  object or an array, found by counting brackets from the first opening one.
\<close>

fun balanced_scan :: "nat \<Rightarrow> string \<Rightarrow> string \<Rightarrow> string option" where
  "balanced_scan depth acc [] = None"
| "balanced_scan depth acc (c # cs) =
     (if c = CHR ''{'' \<or> c = CHR ''['' then balanced_scan (Suc depth) (acc @ [c]) cs
      else if c = CHR ''}'' \<or> c = CHR '']''
        then (if depth \<le> 1 then Some (acc @ [c]) else balanced_scan (depth - 1) (acc @ [c]) cs)
      else balanced_scan depth (acc @ [c]) cs)"

definition first_balanced_region :: "string \<Rightarrow> string option" where
  "first_balanced_region s =
     (case dropWhile (\<lambda>c. c \<noteq> CHR ''{'' \<and> c \<noteq> CHR ''['') s of
        [] \<Rightarrow> None
      | c # cs \<Rightarrow> balanced_scan 1 [c] cs)"

definition spec_parse_response :: "platform \<Rightarrow> string \<Rightarrow> json option" where
  "spec_parse_response P text =
     (case first_balanced_region text of None \<Rightarrow> None | Some r \<Rightarrow> JSON_parse P r)"

text \<open>
  The decision table of section 4.5, and the presence of a keyword as the specification
  words it: a match anywhere in \<^verbatim>\<open>title+description\<close>, the two texts one after the other.
\<close>

definition spec_present :: "string list \<Rightarrow> string \<Rightarrow> string \<Rightarrow> bool" where
  "spec_present keywords title description =
     list_ex (\<lambda>keyword. str_includes (toLowerCase (title @ description)) keyword) keywords"

definition decision_table :: "bool \<Rightarrow> bool \<Rightarrow> jsnum \<times> jsnum \<times> string" where
  "decision_table urgent complex =
     (if urgent then (Fin 8, Fin (if complex then 6 else 2), if complex then ''high'' else ''medium'')
      else if complex then (Fin 6, Fin 6, ''high'')
      else (Fin 4, Fin 2, ''medium''))"

text \<open>
  The presence of a keyword as the code tests it: in the lower-cased title, one space and
  description.
\<close>

definition present :: "string list \<Rightarrow> string \<Rightarrow> string \<Rightarrow> bool" where
  "present keywords title description =
     list_ex (\<lambda>keyword. str_includes (toLowerCase (title @ '' '' @ description)) keyword)
       keywords"

section \<open>A platform and collaborators to evaluate with\<close>

text \<open>
  Base64 of ASCII text, as \<^verbatim>\<open>Buffer.from(s).toString('base64')\<close> computes it.
\<close>

definition b64_char :: "nat \<Rightarrow> char" where
  "b64_char n =
     ''ABCDEFGHIJKLMNOPQRSTUVWXYZabcdefghijklmnopqrstuvwxyz0123456789+/'' ! (n mod 64)"

fun b64 :: "nat list \<Rightarrow> string" where
  "b64 (a # b # c # rest) =
     [b64_char (a div 4), b64_char ((a mod 4) * 16 + b div 16),
      b64_char ((b mod 16) * 4 + c div 64), b64_char (c mod 64)] @ b64 rest"
| "b64 [a, b] =
     [b64_char (a div 4), b64_char ((a mod 4) * 16 + b div 16), b64_char ((b mod 16) * 4),
      CHR ''='']"
| "b64 [a] = [b64_char (a div 4), b64_char ((a mod 4) * 16), CHR ''='', CHR ''='']"
| "b64 [] = []"

text \<open>
  A sample platform, to evaluate the service on concrete inputs. It answers as Node does
  on what it is asked below: \<^verbatim>\<open>JSON.parse\<close> gives the listed values on the listed texts
  and a \<^verbatim>\<open>SyntaxError\<close> on the other texts used here, none of which is JSON; the number
  conversions go by their tables (\<^verbatim>\<open>Number('7.44')\<close> is the double nearest to 7.44).
  \<^verbatim>\<open>JSON.stringify\<close> gives the listed texts on the listed values; on any other value it
  gives a text that is only ever written to the cache and never read back.
\<close>

definition obj_a1 :: string where
  "obj_a1 = ''{'' @ quoted ''a'' @ '':1}''"

definition obj_b2 :: string where
  "obj_b2 = ''{'' @ quoted ''b'' @ '':2}''"

definition reply_priority5 :: string where
  "reply_priority5 = ''{'' @ quoted ''priority'' @ '':5}''"

definition reply_toString :: string where
  "reply_toString = ''{'' @ quoted ''priority'' @ '':{'' @ quoted ''toString'' @ '':1}}''"

definition array_abc :: string where
  "array_abc = ''['' @ quoted ''a'' @ '','' @ quoted ''b'' @ '','' @ quoted ''c'' @ '']''"

definition sample_parse :: "string \<Rightarrow> json option" where
  "sample_parse s =
     map_of
       [(obj_a1, JObj [(''a'', JNum (Fin 1))]),
        (''[1,2]'', JArr [JNum (Fin 1), JNum (Fin 2)]),
        (''[]'', JArr []),
        (''{}'', JObj []),
        (reply_priority5, JObj [(''priority'', JNum (Fin 5))]),
        (reply_toString, JObj [(''priority'', JObj [(''toString'', JNum (Fin 1))])]),
        (array_abc, JArr [JStr ''a'', JStr ''b'', JStr ''c''])] s"

definition sample_stringify :: "json \<Rightarrow> exn + string" where
  "sample_stringify v =
     (case map_of
        [(JArr [JStr ''a'', JStr ''b'', JStr ''c''], array_abc),
         (JArr [], ''[]''),
         (JObj [], ''{}''),
         (JObj [(''a'', JNum (Fin 1))], obj_a1)] v of
        Some s \<Rightarrow> Inr s
      | None \<Rightarrow> Inr ''null'')"

definition sample_StringToNumber :: "string \<Rightarrow> jsnum" where
  "sample_StringToNumber s =
     (case map_of
        [([], Fin 0), (''5'', Fin 5), (''7.44'', binary64 (186/25)), (''Infinity'', PosInf)] s of
        Some n \<Rightarrow> n
      | None \<Rightarrow> NaN)"

definition sample_NumberToString :: "jsnum \<Rightarrow> string" where
  "sample_NumberToString n =
     (case map_of [(Fin 1, ''1''), (Fin 2, ''2''), (Fin 3, ''3''), (Fin 5, ''5'')] n of
        Some s \<Rightarrow> s
      | None \<Rightarrow> ''NaN'')"

text \<open>
  A sentiment analyzer in the manner of the library's: the sum of the word scores, over a
  two-word lexicon, divided by the number of words (\<^verbatim>\<open>0 / 0\<close> is \<^verbatim>\<open>NaN\<close>).
\<close>

definition sample_getSentiment :: "string list \<Rightarrow> jsnum" where
  "sample_getSentiment tokens =
     (if tokens = [] then NaN
      else binary64
        (sum_list (map (\<lambda>w. if w = ''great'' then 3 else if w = ''bad'' then -3 else 0) tokens)
         / of_nat (length tokens)))"

definition sample_platform :: platform where
  "sample_platform =
     \<lparr> JSON_parse = sample_parse,
       JSON_stringify = sample_stringify,
       JSON_stringify_indent = (\<lambda>v n. sample_stringify v),
       StringToNumber = sample_StringToNumber,
       NumberToString = sample_NumberToString,
       base64 = (\<lambda>s. b64 (map of_char s)),
       Date_valid = (\<lambda>d. Inr (d = JStr ''2030-01-31'')),
       tokenize = (\<lambda>s. Some (filter (\<lambda>w. w \<noteq> []) (split_ws s))),
       stem = (\<lambda>w. w),
       getSentiment = sample_getSentiment \<rparr>"

text \<open>
  Collaborators that answer: the cache with \<open>cached\<close> on every read and a success on
  every write, the client with one choice whose text is \<open>reply\<close>. And collaborators
  that reject every call.
\<close>

definition answering :: "string option \<Rightarrow> string \<Rightarrow> collab" where
  "answering cached reply =
     \<lparr> RedisClient_get = (\<lambda>k. Inr cached),
       RedisClient_setex = (\<lambda>k ttl v. Inr ()),
       openai_create = (\<lambda>req. Inr [Choice (Some (Message (Some reply)))]) \<rparr>"


text \<open>Whether a call of the service reached the remote client.\<close>

fun calls_remote :: "event list \<Rightarrow> bool" where
  "calls_remote [] = False"
| "calls_remote (RemoteCall req # es) = True"
| "calls_remote (e # es) = calls_remote es"

text \<open>A client that answers every request with one choice whose text is \<open>reply\<close>.\<close>

definition replying :: "string \<Rightarrow> chat_request \<Rightarrow> exn + choice list" where
  "replying reply req = Inr [Choice (Some (Message (Some reply)))]"

section \<open>Properties of the arithmetic on doubles\<close>

subsection \<open>Rounding to an integer\<close>

lemma round_half_even_bounds:
  "\<lfloor>x\<rfloor> \<le> round_half_even x" "round_half_even x \<le> \<lfloor>x\<rfloor> + 1"
  by (simp_all add: round_half_even_def Let_def)

lemma round_half_even_of_int [simp]: "round_half_even (of_int k) = k"
  by (simp add: round_half_even_def)

lemma round_half_even_mono:
  assumes "x \<le> y"
  shows "round_half_even x \<le> round_half_even y"
proof (cases "\<lfloor>x\<rfloor> = \<lfloor>y\<rfloor>")
  case True
  then show ?thesis
    using assms by (auto simp add: round_half_even_def Let_def)
next
  case False
  then have "\<lfloor>x\<rfloor> + 1 \<le> \<lfloor>y\<rfloor>"
    using floor_mono [OF assms] by simp
  then show ?thesis
    using round_half_even_bounds(2) [of x] round_half_even_bounds(1) [of y] by linarith
qed


subsection \<open>The binade of a positive number\<close>

lemma binade_bounds:
  assumes "0 < a"
  shows "2 powi binade a \<le> a" and "a < 2 powi (binade a + 1)"
proof -
  have "2 powi binade a \<le> a \<and> a < 2 powi (binade a + 1)"
  proof (cases "1 \<le> a")
    case True
    define m where "m = \<lfloor>a\<rfloor>"
    have m: "0 < m" "of_int m \<le> a" "a < of_int m + 1"
      using True by (simp_all add: m_def) linarith
    have b: "1 \<le> bitlen m"
      using m(1) bitlen_nonneg [of m] bitlen_eq_zero_iff [of m] by linarith
    have p: "(2::int) ^ nat (bitlen m - 1) \<le> m" "m + 1 \<le> 2 ^ nat (bitlen m)"
      using bitlen_bounds [OF m(1)] by simp_all
    have "(of_int (2 ^ nat (bitlen m - 1)) :: rat) \<le> of_int m"
      using p(1) by (rule of_int_le_iff [THEN iffD2])
    moreover have "(of_int (m + 1) :: rat) \<le> of_int (2 ^ nat (bitlen m))"
      using p(2) by (rule of_int_le_iff [THEN iffD2])
    ultimately have "(2::rat) ^ nat (bitlen m - 1) \<le> of_int m"
      and "(of_int m :: rat) + 1 \<le> 2 ^ nat (bitlen m)"
      by simp_all
    then have "(2::rat) ^ nat (bitlen m - 1) \<le> a" and "a < 2 ^ nat (bitlen m)"
      using m(2,3) by linarith+
    moreover have "binade a = bitlen m - 1"
      using True by (simp add: binade_def m_def)
    ultimately show ?thesis
      using b by (simp add: power_int_def)
  next
    case False
    define y where "y = 1 / a"
    define m where "m = \<lceil>y\<rceil> - 1"
    have y: "1 < y" "a = 1 / y"
      using False assms by (simp_all add: y_def)
    have m: "0 < m" "of_int m < y" "y \<le> of_int m + 1"
      using y(1) by (simp_all add: m_def) linarith+
    have b: "1 \<le> bitlen m"
      using m(1) bitlen_nonneg [of m] bitlen_eq_zero_iff [of m] by linarith
    have p: "(2::int) ^ nat (bitlen m - 1) \<le> m" "m + 1 \<le> 2 ^ nat (bitlen m)"
      using bitlen_bounds [OF m(1)] by simp_all
    have "(of_int (2 ^ nat (bitlen m - 1)) :: rat) \<le> of_int m"
      using p(1) by (rule of_int_le_iff [THEN iffD2])
    moreover have "(of_int (m + 1) :: rat) \<le> of_int (2 ^ nat (bitlen m))"
      using p(2) by (rule of_int_le_iff [THEN iffD2])
    ultimately have "(2::rat) ^ nat (bitlen m - 1) \<le> of_int m"
      and "(of_int m :: rat) + 1 \<le> 2 ^ nat (bitlen m)"
      by simp_all
    then have lo: "(2::rat) ^ nat (bitlen m - 1) < y" and hi: "y \<le> 2 ^ nat (bitlen m)"
      using m(2,3) by linarith+
    have e: "binade a = - bitlen m"
      using False by (simp add: binade_def m_def y_def)
    have "2 powi (- bitlen m) = 1 / (2::rat) ^ nat (bitlen m)"
      using b by (simp add: power_int_def field_simps)
    moreover have "2 powi (- bitlen m + 1) = 1 / (2::rat) ^ nat (bitlen m - 1)"
      using b by (simp add: power_int_def field_simps nat_diff_distrib)
    moreover have "1 / (2::rat) ^ nat (bitlen m) \<le> 1 / y"
      using hi y(1) by (simp add: field_simps)
    moreover have "1 / y < 1 / (2::rat) ^ nat (bitlen m - 1)"
      using lo y(1) by (simp add: field_simps)
    ultimately show ?thesis
      using e y(2) by simp
  qed
  then show "2 powi binade a \<le> a" and "a < 2 powi (binade a + 1)"
    by simp_all
qed

lemma binade_mono:
  assumes "0 < a" and "a \<le> b"
  shows "binade a \<le> binade b"
proof (rule ccontr)
  assume "\<not> binade a \<le> binade b"
  then have "binade b + 1 \<le> binade a"
    by simp
  then have "(2::rat) powi (binade b + 1) \<le> 2 powi binade a"
    by (intro power_int_increasing) simp_all
  also have "\<dots> \<le> a"
    using assms(1) by (rule binade_bounds)
  finally show False
    using binade_bounds(2) [of b] assms by simp
qed

lemma binade_ge:
  assumes "2 powi k \<le> a"
  shows "k \<le> binade a"
proof (rule ccontr)
  have "0 < (2::rat) powi k"
    by simp
  with assms have a: "0 < a"
    by linarith
  assume "\<not> k \<le> binade a"
  then have "binade a + 1 \<le> k"
    by simp
  then have "(2::rat) powi (binade a + 1) \<le> 2 powi k"
    by (intro power_int_increasing) simp_all
  then show False
    using binade_bounds(2) [OF a] assms by simp
qed

subsection \<open>Rounding to a double\<close>

text \<open>
  Rounding never crosses a double: a multiple of \<open>2 ^ k\<close>, for \<open>k\<close> not below the exponent of
  the doubles around \<open>x\<close>, is one of them, and \<open>x\<close> rounded stays on the side of it where
  \<open>x\<close> is.
\<close>

lemma scaled_round_le:
  assumes "0 < u" and "x \<le> of_int J * u"
  shows "of_int (round_half_even (x / u)) * u \<le> of_int J * u"
proof -
  have "x / u \<le> of_int J"
    using assms by (simp add: pos_divide_le_eq)
  then have "round_half_even (x / u) \<le> round_half_even (of_int J)"
    by (rule round_half_even_mono)
  then have "round_half_even (x / u) \<le> J"
    by simp
  then have "(of_int (round_half_even (x / u)) :: rat) \<le> of_int J"
    by (rule of_int_le_iff [THEN iffD2])
  then show ?thesis
    using assms(1) by (intro mult_right_mono) simp_all
qed

lemma scaled_round_ge:
  assumes "0 < u" and "of_int J * u \<le> x"
  shows "of_int J * u \<le> of_int (round_half_even (x / u)) * u"
proof -
  have "of_int J \<le> x / u"
    using assms by (simp add: pos_le_divide_eq)
  then have "round_half_even (of_int J) \<le> round_half_even (x / u)"
    by (rule round_half_even_mono)
  then have "J \<le> round_half_even (x / u)"
    by simp
  then have "(of_int J :: rat) \<le> of_int (round_half_even (x / u))"
    by (rule of_int_le_iff [THEN iffD2])
  then show ?thesis
    using assms(1) by (intro mult_right_mono) simp_all
qed

lemma grid_point:
  assumes "e \<le> k"
  shows "\<exists>J. of_int j * 2 powi k = (of_int J :: rat) * 2 powi e"
proof -
  have "(2::rat) powi k = 2 powi ((k - e) + e)"
    by simp
  also have "\<dots> = 2 powi (k - e) * 2 powi e"
    by (rule power_int_add) simp
  also have "(2::rat) powi (k - e) = of_int (2 ^ nat (k - e))"
    using assms by (simp add: power_int_def)
  finally have "of_int j * 2 powi k = (of_int (j * 2 ^ nat (k - e)) :: rat) * 2 powi e"
    by simp
  then show ?thesis ..
qed

lemma nearest64_le_grid:
  assumes "ulp_exponent x \<le> k" and "x \<le> of_int j * 2 powi k"
  shows "nearest64 x \<le> of_int j * 2 powi k"
proof (cases "x = 0")
  case True
  then show ?thesis
    using assms(2) by (simp add: nearest64_def Let_def)
next
  case False
  from grid_point [OF assms(1), of j] obtain J
    where J: "of_int j * 2 powi k = (of_int J :: rat) * 2 powi ulp_exponent x" ..
  have "of_int (round_half_even (x / 2 powi ulp_exponent x)) * (2::rat) powi ulp_exponent x
      \<le> of_int J * 2 powi ulp_exponent x"
    using assms(2) unfolding J by (intro scaled_round_le) simp_all
  then show ?thesis
    using False by (simp add: nearest64_def Let_def J)
qed

lemma nearest64_ge_grid:
  assumes "ulp_exponent x \<le> k" and "of_int j * 2 powi k \<le> x"
  shows "of_int j * 2 powi k \<le> nearest64 x"
proof (cases "x = 0")
  case True
  then show ?thesis
    using assms(2) by (simp add: nearest64_def Let_def)
next
  case False
  from grid_point [OF assms(1), of j] obtain J
    where J: "of_int j * 2 powi k = (of_int J :: rat) * 2 powi ulp_exponent x" ..
  have "of_int J * (2::rat) powi ulp_exponent x
      \<le> of_int (round_half_even (x / 2 powi ulp_exponent x)) * 2 powi ulp_exponent x"
    using assms(2) unfolding J by (intro scaled_round_ge) simp_all
  then show ?thesis
    using False by (simp add: nearest64_def Let_def J)
qed

lemma nearest64_nonneg: "0 \<le> x \<Longrightarrow> 0 \<le> nearest64 x"
  using nearest64_ge_grid [of x "ulp_exponent x" 0] by simp

lemma nearest64_nonpos: "x \<le> 0 \<Longrightarrow> nearest64 x \<le> 0"
  using nearest64_le_grid [of x "ulp_exponent x" 0] by simp

text \<open>Rounding to a double is monotone.\<close>

lemma nearest64_mono_same_exponent:
  assumes "ulp_exponent x = ulp_exponent y" and "x \<le> y"
  shows "nearest64 x \<le> nearest64 y"
proof (cases "x = 0 \<or> y = 0")
  case True
  then show ?thesis
    using assms(2) nearest64_nonneg [of y] nearest64_nonpos [of x]
    by (auto simp add: nearest64_def Let_def)
next
  case False
  let ?u = "(2::rat) powi ulp_exponent y"
  have u: "0 < ?u"
    by simp
  then have "x / ?u \<le> y / ?u"
    using assms(2) by (simp add: divide_right_mono)
  then have "round_half_even (x / ?u) \<le> round_half_even (y / ?u)"
    by (rule round_half_even_mono)
  then have "(of_int (round_half_even (x / ?u)) :: rat) \<le> of_int (round_half_even (y / ?u))"
    by (rule of_int_le_iff [THEN iffD2])
  then have "of_int (round_half_even (x / ?u)) * ?u \<le> of_int (round_half_even (y / ?u)) * ?u"
    using u by (intro mult_right_mono) simp_all
  then show ?thesis
    using False assms(1) by (simp add: nearest64_def Let_def)
qed

lemma nearest64_mono_magnitude:
  assumes "0 < a" and "a \<le> b" and "ulp_exponent a \<noteq> ulp_exponent b"
  shows "ulp_exponent a \<le> binade b" and "ulp_exponent b \<le> binade b"
    and "a \<le> 2 powi binade b" and "2 powi binade b \<le> b"
proof -
  have b: "0 < b"
    using assms by simp
  have le: "binade a \<le> binade b"
    using assms(1,2) by (rule binade_mono)
  with assms(3) have lt: "ulp_exponent a < ulp_exponent b"
    using assms(1) b by (auto simp add: ulp_exponent_def)
  then have eb: "ulp_exponent b = binade b - 52" and "binade a < binade b"
    using assms(1) b by (auto simp add: ulp_exponent_def max_def split: if_splits)
  then have "(2::rat) powi (binade a + 1) \<le> 2 powi binade b"
    by (intro power_int_increasing) simp_all
  then show "a \<le> 2 powi binade b"
    using binade_bounds(2) [OF assms(1)] by simp
  show "2 powi binade b \<le> b"
    using b by (rule binade_bounds)
  show "ulp_exponent b \<le> binade b"
    using eb by simp
  then show "ulp_exponent a \<le> binade b"
    using lt by simp
qed

lemma ulp_exponent_minus [simp]: "ulp_exponent (- x) = ulp_exponent x"
  by (simp add: ulp_exponent_def)

lemma nearest64_mono:
  assumes "x \<le> y"
  shows "nearest64 x \<le> nearest64 y"
proof (cases "ulp_exponent x = ulp_exponent y")
  case True
  then show ?thesis
    using assms by (rule nearest64_mono_same_exponent)
next
  case False
  consider "x \<le> 0" and "0 \<le> y" | "0 < x" | "y < 0"
    by linarith
  then show ?thesis
  proof cases
    case 1
    then show ?thesis
      using nearest64_nonneg [of y] nearest64_nonpos [of x] by simp
  next
    case 2
    have "\<bar>x\<bar> = x" and "\<bar>y\<bar> = y"
      using 2 assms by simp_all
    note m = nearest64_mono_magnitude [OF 2 assms False]
    have "nearest64 x \<le> of_int 1 * 2 powi binade y"
      using m(1,3) by (intro nearest64_le_grid) simp_all
    moreover have "of_int 1 * 2 powi binade y \<le> nearest64 y"
      using m(2,4) by (intro nearest64_ge_grid) simp_all
    ultimately show ?thesis
      by simp
  next
    case 3
    have "0 < - y" and "- y \<le> - x" and "ulp_exponent (- y) \<noteq> ulp_exponent (- x)"
      using 3 assms False by simp_all
    note m = nearest64_mono_magnitude [OF this]
    have "nearest64 x \<le> of_int (- 1) * 2 powi binade (- x)"
      using m(2,4) by (intro nearest64_le_grid) simp_all
    moreover have "of_int (- 1) * 2 powi binade (- x) \<le> nearest64 y"
      using m(1,3) by (intro nearest64_ge_grid) simp_all
    ultimately show ?thesis
      by simp
  qed
qed

lemma binary64_not_NaN [simp]: "binary64 x \<noteq> NaN"
  by (simp add: binary64_def Let_def)

lemma overflow_threshold_pos: "0 < overflow_threshold"
  by (simp add: overflow_threshold_def)

lemma binary64_mono:
  assumes "x \<le> y"
  shows "num_le (binary64 x) (binary64 y)"
  using nearest64_mono [OF assms] overflow_threshold_pos
  by (auto simp add: binary64_def Let_def num_le_def)

text \<open>
  A number whose exponent is below 971 rounds to a finite double, so that the evaluation
  of \<^const>\<open>binary64\<close> can test the exponent first; and a number from \<open>2 ^ 1024\<close> on overflows.
\<close>

lemma nearest64_below_overflow:
  assumes "ulp_exponent x < 971"
  shows "\<bar>nearest64 x\<bar> < overflow_threshold"
proof (cases "x = 0")
  case True
  then show ?thesis
    using overflow_threshold_pos by (simp add: nearest64_def Let_def)
next
  case False
  define k where "k = ulp_exponent x + 53"
  have k: "binade \<bar>x\<bar> + 1 \<le> k" "ulp_exponent x \<le> k" "k \<le> 1023"
    using assms by (simp_all add: k_def ulp_exponent_def)
  have "\<bar>x\<bar> < 2 powi (binade \<bar>x\<bar> + 1)"
    using False by (intro binade_bounds) simp
  also have "\<dots> \<le> 2 powi k"
    using k(1) by (intro power_int_increasing) simp_all
  finally have "x \<le> of_int 1 * 2 powi k" and "of_int (- 1) * 2 powi k \<le> x"
    by (simp_all add: abs_less_iff)
  then have "nearest64 x \<le> of_int 1 * 2 powi k" and "of_int (- 1) * 2 powi k \<le> nearest64 x"
    using k(2) by (simp_all only: nearest64_le_grid nearest64_ge_grid)
  then have "\<bar>nearest64 x\<bar> \<le> 2 powi k"
    by (simp add: abs_le_iff)
  also have "\<dots> \<le> 2 powi 1023"
    using k(3) by (intro power_int_increasing) simp_all
  also have "\<dots> < overflow_threshold"
    by (simp add: overflow_threshold_def)
  finally show ?thesis .
qed

lemma binary64_code [code]:
  "binary64 x =
     (if ulp_exponent x < 971 then Fin (nearest64 x)
      else let y = nearest64 x
           in if overflow_threshold \<le> y then PosInf
              else if y \<le> - overflow_threshold then NegInf
              else Fin y)"
  using nearest64_below_overflow [of x] by (auto simp add: binary64_def Let_def)

lemma binary64_overflow:
  assumes "overflow_threshold \<le> x"
  shows "binary64 x = PosInf"
proof -
  have "(2::rat) powi 1024 \<le> x"
    using assms by (simp add: overflow_threshold_def)
  then have k: "1024 \<le> binade x"
    by (rule binade_ge)
  have x: "0 < x"
    using assms overflow_threshold_pos by linarith
  then have "of_int 1 * 2 powi binade x \<le> nearest64 x"
    using k binade_bounds(1) [OF x] by (intro nearest64_ge_grid) (simp_all add: ulp_exponent_def)
  moreover have "(2::rat) powi 1024 \<le> 2 powi binade x"
    using k by (intro power_int_increasing) simp_all
  ultimately have "overflow_threshold \<le> nearest64 x"
    by (simp add: overflow_threshold_def)
  then show ?thesis
    by (simp add: binary64_def)
qed


subsection \<open>Rounding to one decimal place\<close>

lemma num_le_Fin [simp]: "num_le (Fin x) (Fin y) \<longleftrightarrow> x \<le> y"
  by (simp add: num_le_def not_less)

lemma num_le_trans: "num_le a b \<Longrightarrow> num_le b c \<Longrightarrow> num_le a c"
  by (cases a; cases b; cases c) (simp_all add: num_le_def)

lemma num_le_infinities [simp]: "num_le (binary64 x) PosInf" "num_le NegInf (binary64 x)"
  by (simp_all add: num_le_def binary64_def Let_def)

lemma times10_mono: "num_le a b \<Longrightarrow> num_le (times10 a) (times10 b)"
  by (cases a; cases b) (simp_all add: binary64_mono, simp_all add: num_le_def)

lemma div10_mono: "num_le a b \<Longrightarrow> num_le (div10 a) (div10 b)"
  by (cases a; cases b) (simp_all add: binary64_mono divide_right_mono, simp_all add: num_le_def)

lemma Math_round_mono: "num_le a b \<Longrightarrow> num_le (Math_round a) (Math_round b)"
  by (cases a; cases b) (simp_all add: round_mono, simp_all add: num_le_def)

lemma round1_mono: "num_le a b \<Longrightarrow> num_le (round1 a) (round1 b)"
  by (simp add: round1_def times10_mono Math_round_mono div10_mono)

lemma round1_not_NaN: "n \<noteq> NaN \<Longrightarrow> round1 n \<noteq> NaN"
proof (cases n)
  case (Fin x)
  then show ?thesis
    by (cases "binary64 (x * 10)") (simp_all add: round1_def)
qed (simp_all add: round1_def)







section \<open>Properties of the validator\<close>

lemma bind_Inr [simp]: "bind (Inr x) f = f x"
  by (simp add: bind_def)

lemma bind_Inl [simp]: "bind (Inl e) f = Inl e"
  by (simp add: bind_def)

lemma bind_eq_Inr: "bind m f = Inr y \<longleftrightarrow> (\<exists>x. m = Inr x \<and> f x = Inr y)"
  by (cases m) simp_all

lemma bind_eq_Inl: "bind m f = Inl e \<longleftrightarrow> m = Inl e \<or> (\<exists>x. m = Inr x \<and> f x = Inl e)"
  by (cases m) simp_all

text \<open>Only an array or an object can make the coercion throw, and it throws a \<^verbatim>\<open>TypeError\<close>.\<close>

lemma ToString_join_error:
  shows "ToString P v = Inl e \<Longrightarrow> e = TypeError"
    and "join P vs = Inl e \<Longrightarrow> e = TypeError"
  by (induction P v and P vs rule: ToString_join.induct)
     (auto simp add: bind_eq_Inl split: if_splits)

lemma Number_error: "Number P v = Inl e \<Longrightarrow> e = TypeError"
  by (cases "(P, v)" rule: Number.cases)
     (auto simp add: bind_eq_Inl split: if_splits dest: ToString_join_error)

lemma Number_primitive:
  assumes "\<And>xs. v \<noteq> Some (JArr xs)" and "\<And>kvs. v \<noteq> Some (JObj kvs)"
  shows "\<exists>n. Number P v = Inr n"
  using assms by (cases "(P, v)" rule: Number.cases) auto

text \<open>
  The bounds and defaults of the call sites are left unchanged by the rounding to one
  decimal place. The doubles nearest to 0.1, 0.8, 5.3 and 7.4 are the ones of any binary64
  arithmetic. In doubles an integer bound can be moved, its product by ten not being a
  double, and a finite one can overflow.
\<close>

lemma call_site_bounds:
  "round1 (Fin 1) = Fin 1" "round1 (Fin 10) = Fin 10" "round1 (Fin (1/2)) = Fin (1/2)"
  "round1 (Fin 40) = Fin 40" "round1 (Fin 20) = Fin 20"
  "round1 (Fin 5) = Fin 5" "round1 (Fin 2) = Fin 2"
  by code_simp+

lemma binary64_samples:
  "binary64 (1/10) = Fin (3602879701896397 / 36028797018963968)"
  "binary64 (4/5) = Fin (3602879701896397 / 4503599627370496)"
  "binary64 (53/10) = Fin (5967269506265907 / 1125899906842624)"
  "binary64 (37/5) = Fin (4165829655317709 / 562949953421312)"
  by code_simp+

lemma round1_large_integer: "round1 (Fin 2000000000000003) = Fin (2000000000000003 + 1/4)"
  by code_simp

lemma round1_overflow: "round1 (Fin (10 ^ 308)) = PosInf"
proof -
  have "overflow_threshold \<le> 10 ^ 308 * 10"
    by (simp add: overflow_threshold_def)
  then have "binary64 (10 ^ 308 * 10) = PosInf"
    by (rule binary64_overflow)
  then show ?thesis
    by (simp add: round1_def)
qed

lemma in_range_round1:
  assumes "num_le lo (round1 lo)" and "num_le (round1 hi) hi"
    and "\<not> isNaN num" and "\<not> num_lt num lo" and "\<not> num_lt hi num"
  shows "in_range (round1 num) lo hi"
proof -
  have "lo \<noteq> NaN" and "hi \<noteq> NaN"
    using assms(1,2) by (simp_all add: num_le_def)
  then have "num_le lo num" and "num_le num hi"
    using assms(3-5) by (simp_all add: num_le_def isNaN_def)
  then have "num_le (round1 lo) (round1 num)" and "num_le (round1 num) (round1 hi)"
    by (simp_all add: round1_mono)
  then have "num_le lo (round1 num)" and "num_le (round1 num) hi"
    using assms(1,2) by (blast intro: num_le_trans)+
  then show ?thesis
    by (simp add: in_range_def)
qed

lemma validateRange_Inr:
  assumes "validateRange P v lo hi d = Inr r"
  shows "\<exists>num. Number P v = Inr num
     \<and> r = (if isNaN num \<or> num_lt num lo \<or> num_lt hi num then d else round1 num)"
  using assms by (auto simp add: validateRange_def bind_eq_Inr split: if_splits)

lemma validateRange_bounds:
  assumes "num_le lo (round1 lo)" and "num_le (round1 hi) hi"
    and "in_range d lo hi" and "validateRange P v lo hi d = Inr r"
  shows "in_range r lo hi"
  using validateRange_Inr [OF assms(4)] assms(1-3) by (auto simp add: in_range_round1)


lemma sample_coercion:
  "Number sample_platform (Some (JStr ''7.44'')) = Inr (binary64 (186/25))"
  by code_simp

lemma sample_double: "binary64 (186/25) = Fin (8376695306909123 / 1125899906842624)"
  by code_simp

lemma sample_bounds:
  "num_le (Fin 1) (round1 (Fin 1))" "num_le (round1 (Fin 10)) (Fin 10)"
  by (simp_all add: call_site_bounds)

text \<open>
  C5, as amended. Let \<open>min\<close> and \<open>max\<close> be numbers that the rounding to one decimal place,
  as the code computes it on doubles, keeps on their side of the range:
  \<^verbatim>\<open>min <= Math.round(min * 10) / 10\<close> and \<^verbatim>\<open>Math.round(max * 10) / 10 <= max\<close> (so neither is
  \<^verbatim>\<open>NaN\<close>; every call site has such bounds). If the coercion \<^verbatim>\<open>Number(v)\<close> throws,
  \<^verbatim>\<open>validateRange\<close> throws the same exception. Otherwise it returns a value that is in
  \<open>[min, max]\<close> or is exactly the default: the default when the coerced number is \<^verbatim>\<open>NaN\<close> or
  outside \<open>[min, max]\<close>, and \<^verbatim>\<open>Math.round(num * 10) / 10\<close> otherwise.
\<close>

theorem validateRange_in_range_or_default:
  assumes "num_le lo (round1 lo)" and "num_le (round1 hi) hi"
  shows "(\<forall>e. Number P v = Inl e \<longrightarrow> validateRange P v lo hi d = Inl e)
    \<and> (\<forall>num. Number P v = Inr num \<longrightarrow>
         (\<exists>r. validateRange P v lo hi d = Inr r
            \<and> (in_range r lo hi \<or> r = d)
            \<and> r = (if isNaN num \<or> num_lt num lo \<or> num_lt hi num then d else round1 num)))"
  using assms by (simp add: validateRange_def in_range_round1)

theorem validateRange_in_range_or_default_witness:
  "Number sample_platform (Some (JStr ''7.44'')) = Inr (binary64 (186/25))
   \<and> (\<exists>r. validateRange sample_platform (Some (JStr ''7.44'')) (Fin 1) (Fin 10) (Fin 5) = Inr r
        \<and> (in_range r (Fin 1) (Fin 10) \<or> r = Fin 5)
        \<and> r = round1 (binary64 (186/25)))"
  using validateRange_in_range_or_default
    [OF sample_bounds, of sample_platform "Some (JStr ''7.44'')" "Fin 5"] sample_coercion
  by (simp add: isNaN_def sample_double)

text \<open>
  C5 as stated fails for bounds that the rounding moves: 0.75 lies in \<open>[0, 0.75]\<close>, is
  rounded to 0.8 after the range check, and 0.8 is neither in the range nor the default.
\<close>

theorem validateRange_rounds_out_of_range:
  "validateRange sample_platform (Some (JNum (Fin (3/4)))) (Fin 0) (Fin (3/4)) (Fin 0)
     = Inr (binary64 (4/5))
   \<and> \<not> in_range (binary64 (4/5)) (Fin 0) (Fin (3/4))
   \<and> binary64 (4/5) \<noteq> Fin 0"
  by code_simp




section \<open>Results of computations\<close>

lemma snd_io_return [simp]: "snd (io_return x) = Inr x"
  by (simp add: io_return_def)

lemma snd_io_throw [simp]: "snd (io_throw e) = Inl e"
  by (simp add: io_throw_def)

lemma snd_io_lift [simp]: "snd (io_lift r) = r"
  by (simp add: io_lift_def)

lemma snd_cache_get [simp]: "snd (cache_get E k) = RedisClient_get E k"
  by (simp add: cache_get_def)

lemma snd_cache_setex [simp]: "snd (cache_setex E k ttl v) = RedisClient_setex E k ttl v"
  by (simp add: cache_setex_def)

lemma snd_remote_create [simp]: "snd (remote_create E req) = openai_create E req"
  by (simp add: remote_create_def)

lemma snd_json_parse_io [simp]:
  "snd (json_parse_io P s) = (case JSON_parse P s of None \<Rightarrow> Inl SyntaxError | Some v \<Rightarrow> Inr v)"
  by (simp add: json_parse_io_def split: option.splits)

lemma snd_build_prompt [simp]: "snd (build_prompt P t d c) = buildAnalysisPrompt P t d c"
  by (simp add: build_prompt_def split: sum.splits)

lemma snd_io_bind: "snd (io_bind m f) = (case snd m of Inl e \<Rightarrow> Inl e | Inr x \<Rightarrow> snd (f x))"
  by (cases m; cases "snd m") (auto simp add: io_bind_def split: prod.splits)

lemma snd_io_catch:
  "snd (io_catch m h) = (case snd m of Inl e \<Rightarrow> snd (h e) | Inr x \<Rightarrow> Inr x)"
  by (cases m; cases "snd m") (auto simp add: io_catch_def split: prod.splits)

lemma snd_io_bind_Inr:
  "snd (io_bind m f) = Inr r \<longleftrightarrow> (\<exists>x. snd m = Inr x \<and> snd (f x) = Inr r)"
  by (simp add: snd_io_bind split: sum.splits)

section \<open>Every analysis that is computed is in range\<close>

lemma validateComplexity_enum: "validateComplexity v \<in> {''low'', ''medium'', ''high''}"
  by (auto simp add: validateComplexity_def split: option.splits json.splits)

lemma validateTimeSlot_enum:
  "validateTimeSlot v \<in> {''morning'', ''afternoon'', ''evening'', ''flexible''}"
  by (auto simp add: validateTimeSlot_def split: option.splits json.splits)

lemma sentiment_label_enum: "sentiment_label s \<in> {''positive'', ''negative'', ''neutral''}"
  by (simp add: sentiment_label_def)

lemma length_slice_or_empty: "length (slice_or_empty v n) \<le> n"
  by (cases "(v, n)" rule: slice_or_empty.cases) simp_all

lemma calculateConfidenceScore_bounds:
  "calculateConfidenceScore an = Inr c \<Longrightarrow> 60 \<le> c \<and> c \<le> 99"
  by (auto simp add: calculateConfidenceScore_def bind_eq_Inr Let_def)

lemma fallbackAnalysis_valid: "valid_analysis (fallbackAnalysis t d)"
  by (simp add: valid_analysis_def fallbackAnalysis_def Let_def in_range_def num_le_def
      extractKeywords_def)

lemma finalAnalysis_fields:
  assumes "finalAnalysis P an d = Inr a"
  obtains p vp h vh cx tg u vu st sl c where
    "validateRange P p (Fin 1) (Fin 10) (Fin 5) = Inr vp"
    and "validateRange P h (Fin (1/2)) (Fin 40) (Fin 2) = Inr vh"
    and "validateRange P u (Fin 1) (Fin 10) (Fin 5) = Inr vu"
    and "calculateConfidenceScore an = Inr c"
    and "a = \<lparr> priority = vp, estimatedHours = vh, complexity = validateComplexity cx,
        sentiment = sentiment_label (analyzeSentiment P d), tags = slice_or_empty tg 8,
        deadlineUrgency = vu, suggestedSubtasks = slice_or_empty st 5,
        optimalTimeSlot = validateTimeSlot sl, confidenceScore = c \<rparr>"
  using assms by (auto simp add: finalAnalysis_def bind_eq_Inr Let_def)

lemma finalAnalysis_sentiment:
  "finalAnalysis P an d = Inr a \<Longrightarrow> sentiment a = sentiment_label (analyzeSentiment P d)"
  by (erule finalAnalysis_fields) simp

lemma finalAnalysis_valid:
  assumes "finalAnalysis P an d = Inr a"
  shows "valid_analysis a"
proof -
  have b1: "num_le (Fin 1) (round1 (Fin 1))" "num_le (round1 (Fin 10)) (Fin 10)"
    "in_range (Fin 5) (Fin 1) (Fin 10)"
    by (simp_all add: call_site_bounds in_range_def)
  have b2: "num_le (Fin (1/2)) (round1 (Fin (1/2)))" "num_le (round1 (Fin 40)) (Fin 40)"
    "in_range (Fin 2) (Fin (1/2)) (Fin 40)"
    by (simp_all add: call_site_bounds in_range_def)
  from assms obtain p vp h vh cx tg u vu st sl c where
    v: "validateRange P p (Fin 1) (Fin 10) (Fin 5) = Inr vp"
      "validateRange P h (Fin (1/2)) (Fin 40) (Fin 2) = Inr vh"
      "validateRange P u (Fin 1) (Fin 10) (Fin 5) = Inr vu"
      "calculateConfidenceScore an = Inr c"
    and a: "a = \<lparr> priority = vp, estimatedHours = vh, complexity = validateComplexity cx,
        sentiment = sentiment_label (analyzeSentiment P d), tags = slice_or_empty tg 8,
        deadlineUrgency = vu, suggestedSubtasks = slice_or_empty st 5,
        optimalTimeSlot = validateTimeSlot sl, confidenceScore = c \<rparr>"
    by (rule finalAnalysis_fields)
  from v have "in_range vp (Fin 1) (Fin 10)" and "in_range vh (Fin (1/2)) (Fin 40)"
    and "in_range vu (Fin 1) (Fin 10)" and "60 \<le> c \<and> c \<le> 99"
    using validateRange_bounds [OF b1] validateRange_bounds [OF b2]
      calculateConfidenceScore_bounds by blast+
  then show ?thesis
    using validateComplexity_enum [of cx] validateTimeSlot_enum [of sl]
      sentiment_label_enum [of "analyzeSentiment P d"]
      length_slice_or_empty [of tg 8] length_slice_or_empty [of st 5]
    unfolding a valid_analysis_def by simp
qed

section \<open>The paths of analyzeTask\<close>

lemma analyzeTask_miss_Inr:
  assumes "snd (analyzeTask_miss P E k t d c) = Inr r"
  shows "r = Computed (fallbackAnalysis t d)
    \<or> (\<exists>prompt resp reply an a ser.
          buildAnalysisPrompt P t d c = Inr prompt
        \<and> openai_create E (analysis_request prompt) = Inr resp
        \<and> first_content resp = Some reply \<and> reply \<noteq> []
        \<and> parse_response P reply = Inr an
        \<and> finalAnalysis P an d = Inr a
        \<and> JSON_stringify P (analysis_json a) = Inr ser
        \<and> RedisClient_setex E k 3600 ser = Inr ()
        \<and> r = Computed a)"
proof -
  from assms obtain prompt resp where
    p: "buildAnalysisPrompt P t d c = Inr prompt"
    and c: "openai_create E (analysis_request prompt) = Inr resp"
    and rest: "snd (case first_content resp of
         None \<Rightarrow> io_throw (Error ''Empty response from OpenAI'')
       | Some aiResponse \<Rightarrow>
           if aiResponse = [] then io_throw (Error ''Empty response from OpenAI'')
           else
             (case parse_response P aiResponse of
                Inl parseError \<Rightarrow> io_return (Computed (fallbackAnalysis t d))
              | Inr analysis \<Rightarrow>
                  io_bind (io_lift (finalAnalysis P analysis d)) (\<lambda>final.
                  io_bind (io_lift (JSON_stringify P (analysis_json final))) (\<lambda>serialized.
                  io_bind (cache_setex E k 3600 serialized) (\<lambda>u.
                    io_return (Computed final)))))) = Inr r"
    by (auto simp add: analyzeTask_miss_def snd_io_bind_Inr)
  from rest obtain reply where f: "first_content resp = Some reply" and ne: "reply \<noteq> []"
    by (cases "first_content resp") (auto split: if_splits)
  show ?thesis
  proof (cases "parse_response P reply")
    case (Inl e)
    then show ?thesis
      using rest f ne by simp
  next
    case (Inr an)
    then obtain a ser where "finalAnalysis P an d = Inr a"
      and "JSON_stringify P (analysis_json a) = Inr ser"
      and "RedisClient_setex E k 3600 ser = Inr ()" and "r = Computed a"
      using rest f ne by (auto simp add: snd_io_bind_Inr)
    then show ?thesis
      using p c f ne Inr by blast
  qed
qed

lemma analyzeTask_try_Inr:
  assumes "snd (analyzeTask_try P init E t d c) = Inr r"
  shows "r = Computed (fallbackAnalysis t d)
    \<or> (\<exists>s v. init \<and> RedisClient_get E (analysis_cacheKey P t d) = Inr (Some s) \<and> s \<noteq> []
          \<and> JSON_parse P s = Some v \<and> r = FromCache v)
    \<or> (\<exists>cached prompt resp reply an a ser.
          init \<and> RedisClient_get E (analysis_cacheKey P t d) = Inr cached \<and> \<not> truthy_string cached
        \<and> buildAnalysisPrompt P t d c = Inr prompt
        \<and> openai_create E (analysis_request prompt) = Inr resp
        \<and> first_content resp = Some reply \<and> reply \<noteq> []
        \<and> parse_response P reply = Inr an
        \<and> finalAnalysis P an d = Inr a
        \<and> JSON_stringify P (analysis_json a) = Inr ser
        \<and> RedisClient_setex E (analysis_cacheKey P t d) 3600 ser = Inr ()
        \<and> r = Computed a)"
proof (cases init)
  case False
  then show ?thesis
    using assms by (simp add: analyzeTask_try_def)
next
  case True
  then obtain cached where g: "RedisClient_get E (analysis_cacheKey P t d) = Inr cached"
    and rest: "snd (case cached of
            None \<Rightarrow> analyzeTask_miss P E (analysis_cacheKey P t d) t d c
          | Some s \<Rightarrow>
              if s = [] then analyzeTask_miss P E (analysis_cacheKey P t d) t d c
              else io_bind (json_parse_io P s) (\<lambda>v. io_return (FromCache v))) = Inr r"
    using assms by (auto simp add: analyzeTask_try_def Let_def snd_io_bind_Inr)
  show ?thesis
  proof (cases "truthy_string cached")
    case True
    then obtain s where "cached = Some s" and "s \<noteq> []"
      by (cases cached) auto
    then show ?thesis
      using rest g \<open>init\<close> by (auto simp add: snd_io_bind_Inr split: option.splits)
  next
    case False
    then have "snd (analyzeTask_miss P E (analysis_cacheKey P t d) t d c) = Inr r"
      using rest by (cases cached) (auto split: if_splits)
    from analyzeTask_miss_Inr [OF this] show ?thesis
      using g False \<open>init\<close> by blast
  qed
qed

text \<open>
  The three ways \<^verbatim>\<open>analyzeTask\<close> ends: with the heuristic fallback, with what the cache
  held, or with the validated analysis of a reply after every step succeeded.
\<close>

lemma analyzeTask_cases:
  "snd (analyzeTask P init E t d c) = Inr (Computed (fallbackAnalysis t d))
    \<or> (\<exists>s v. init \<and> RedisClient_get E (analysis_cacheKey P t d) = Inr (Some s) \<and> s \<noteq> []
          \<and> JSON_parse P s = Some v \<and> snd (analyzeTask P init E t d c) = Inr (FromCache v))
    \<or> (\<exists>cached prompt resp reply an a ser.
          init \<and> RedisClient_get E (analysis_cacheKey P t d) = Inr cached \<and> \<not> truthy_string cached
        \<and> buildAnalysisPrompt P t d c = Inr prompt
        \<and> openai_create E (analysis_request prompt) = Inr resp
        \<and> first_content resp = Some reply \<and> reply \<noteq> []
        \<and> parse_response P reply = Inr an
        \<and> finalAnalysis P an d = Inr a
        \<and> JSON_stringify P (analysis_json a) = Inr ser
        \<and> RedisClient_setex E (analysis_cacheKey P t d) 3600 ser = Inr ()
        \<and> snd (analyzeTask P init E t d c) = Inr (Computed a))"
proof (cases "snd (analyzeTask_try P init E t d c)")
  case (Inl e)
  then show ?thesis
    by (simp add: analyzeTask_def snd_io_catch)
next
  case (Inr r)
  then have "snd (analyzeTask P init E t d c) = Inr r"
    by (simp add: analyzeTask_def snd_io_catch)
  with analyzeTask_try_Inr [OF Inr] show ?thesis
    by auto
qed

lemma sample_run:
  "snd (analyzeTask sample_platform True (answering None reply_priority5) ''Ship it'' ''great'' None)
   = Inr (Computed \<lparr> priority = Fin 5, estimatedHours = Fin 2, complexity = ''medium'',
       sentiment = ''positive'', tags = [], deadlineUrgency = Fin 5, suggestedSubtasks = [],
       optimalTimeSlot = ''flexible'', confidenceScore = 65 \<rparr>)"
  by code_simp

text \<open>
  C2. Whatever the inputs, the flag, the platform and the collaborators (so whatever the
  remote reply, malformed or partial), \<^verbatim>\<open>analyzeTask\<close> returns; a result that is not what
  a cache hit deserialized is a \<^verbatim>\<open>TaskAnalysis\<close> with every field in its declared range:
  priority in \<open>[1, 10]\<close>, estimatedHours in \<open>[0.5, 40]\<close>, complexity one of low, medium,
  high, sentiment one of positive, negative, neutral, at most 8 tags, deadlineUrgency in
  \<open>[1, 10]\<close>, at most 5 suggested subtasks, optimalTimeSlot one of morning, afternoon,
  evening, flexible, and confidenceScore in \<open>[60, 99]\<close>; and a deserialized value is
  returned only when the service is initialized and the cache read gave a string that is
  not empty and parses to that value.
\<close>

theorem analyzeTask_result_valid:
  "(\<exists>r. snd (analyzeTask P init E title description ctx) = Inr r)
   \<and> (\<forall>a. snd (analyzeTask P init E title description ctx) = Inr (Computed a) \<longrightarrow>
         valid_analysis a)
   \<and> (\<forall>v. snd (analyzeTask P init E title description ctx) = Inr (FromCache v) \<longrightarrow>
         init \<and> (\<exists>s. RedisClient_get E (analysis_cacheKey P title description) = Inr (Some s)
                    \<and> s \<noteq> [] \<and> JSON_parse P s = Some v))"
proof (intro conjI allI impI)
  show "\<exists>r. snd (analyzeTask P init E title description ctx) = Inr r"
    using analyzeTask_cases [of P init E title description ctx] by blast
  show "valid_analysis a"
    if "snd (analyzeTask P init E title description ctx) = Inr (Computed a)" for a
    using analyzeTask_cases [of P init E title description ctx] that
      fallbackAnalysis_valid [of title description] finalAnalysis_valid [of P _ description a]
    by auto
  show "init" and "\<exists>s. RedisClient_get E (analysis_cacheKey P title description) = Inr (Some s)
                    \<and> s \<noteq> [] \<and> JSON_parse P s = Some v"
    if "snd (analyzeTask P init E title description ctx) = Inr (FromCache v)" for v
    using analyzeTask_cases [of P init E title description ctx] that by auto
qed

theorem analyzeTask_result_valid_witness:
  "snd (analyzeTask sample_platform True (answering None reply_priority5) ''Ship it'' ''great''
          None)
     = Inr (Computed \<lparr> priority = Fin 5, estimatedHours = Fin 2, complexity = ''medium'',
         sentiment = ''positive'', tags = [], deadlineUrgency = Fin 5, suggestedSubtasks = [],
         optimalTimeSlot = ''flexible'', confidenceScore = 65 \<rparr>)
   \<and> valid_analysis \<lparr> priority = Fin 5, estimatedHours = Fin 2, complexity = ''medium'',
       sentiment = ''positive'', tags = [], deadlineUrgency = Fin 5, suggestedSubtasks = [],
       optimalTimeSlot = ''flexible'', confidenceScore = 65 \<rparr>"
  using analyzeTask_result_valid
    [of sample_platform True "answering None reply_priority5" "''Ship it''" "''great''" None]
    sample_run
  by simp

section \<open>No operation of the pipeline raises\<close>

lemma analyzeTask_caught:
  "snd (analyzeTask P init E t d c) =
     (case snd (analyzeTask_try P init E t d c) of
        Inl e \<Rightarrow> Inr (Computed (fallbackAnalysis t d))
      | Inr r \<Rightarrow> Inr r)"
  by (cases "snd (analyzeTask_try P init E t d c)") (simp_all add: analyzeTask_def snd_io_catch)





lemma analyzeTask_try_miss:
  "init \<Longrightarrow> RedisClient_get E (analysis_cacheKey P t d) = Inr cached \<Longrightarrow> \<not> truthy_string cached
   \<Longrightarrow> snd (analyzeTask_try P init E t d c)
       = snd (analyzeTask_miss P E (analysis_cacheKey P t d) t d c)"
  by (cases cached) (simp_all add: analyzeTask_try_def Let_def snd_io_bind)















section \<open>The heuristic fallback\<close>

lemma str_includes_sublist: "str_includes t k \<longleftrightarrow> sublist k t"
  by (induction t) (simp_all add: sublist_Cons_right)

text \<open>A keyword without the separator in it cannot lie across the separator.\<close>

lemma sublist_across_separator:
  assumes "c \<notin> set k" and "k \<noteq> []"
  shows "sublist k (a @ c # b) \<longleftrightarrow> sublist k a \<or> sublist k b"
proof
  assume "sublist k (a @ c # b)"
  then consider "sublist k a" | "sublist k (c # b)"
    | k1 k2 where "k = k1 @ k2" and "suffix k1 a" and "prefix k2 (c # b)" and "k2 \<noteq> []"
    by (auto simp add: sublist_append) (metis append_Nil2 suffix_imp_sublist)
  then show "sublist k a \<or> sublist k b"
  proof cases
    case 1
    then show ?thesis
      by simp
  next
    case 2
    then show ?thesis
      using assms by (auto simp add: sublist_Cons_right prefix_Cons)
  next
    case 3
    then have "c \<in> set k2"
      by (cases k2) (auto simp add: prefix_Cons)
    then show ?thesis
      using 3 assms by simp
  qed
next
  assume "sublist k a \<or> sublist k b"
  then show "sublist k (a @ c # b)"
    by (auto simp add: sublist_append sublist_Cons_right)
qed

lemma toLowerCase_joined:
  "toLowerCase (t @ '' '' @ d) = toLowerCase t @ CHR '' '' # toLowerCase d"
  by (simp add: toLowerCase_def lower_char_def)

lemma keywords_plain:
  "\<forall>k \<in> set urgentKeywords. CHR '' '' \<notin> set k \<and> k \<noteq> []"
  "\<forall>k \<in> set complexKeywords. CHR '' '' \<notin> set k \<and> k \<noteq> []"
  by (simp_all add: urgentKeywords_def complexKeywords_def)

lemma present_either:
  assumes "\<forall>k \<in> set ks. CHR '' '' \<notin> set k \<and> k \<noteq> []"
  shows "present ks t d \<longleftrightarrow>
    list_ex (\<lambda>k. str_includes (toLowerCase t) k \<or> str_includes (toLowerCase d) k) ks"
  using assms
  by (auto simp add: present_def list_ex_iff toLowerCase_joined str_includes_sublist
      sublist_across_separator simp del: append.simps)

lemma sample_presence:
  "present urgentKeywords ''Fix urgent production bug'' ''Critical deadline tomorrow''"
  "\<not> present complexKeywords ''Fix urgent production bug'' ''Critical deadline tomorrow''"
  by code_simp+

text \<open>
  C7, as amended. For every title and description the heuristic fallback analysis is the
  function given by the decision table of the case-insensitive presence of the urgency
  keywords urgent, asap, immediately, critical, emergency, deadline and of the complexity
  keywords refactor, architecture, design, research, analysis, integration in the text
  made of the title, one space and the description; that is, in the title or in the
  description, a keyword lying across the two not counting. If urgent: priority 8,
  estimatedHours 6 if complex else 2, complexity high if complex else medium. If not
  urgent but complex: priority 6, estimatedHours 6, complexity high. Otherwise priority
  4, estimatedHours 2, complexity medium. Always deadlineUrgency 9 if urgent else 5,
  sentiment neutral, confidenceScore 70, no suggested subtask, optimalTimeSlot flexible.
\<close>

theorem fallbackAnalysis_decision_table:
  "(priority (fallbackAnalysis title description),
    estimatedHours (fallbackAnalysis title description),
    complexity (fallbackAnalysis title description))
     = decision_table (present urgentKeywords title description)
         (present complexKeywords title description)
   \<and> deadlineUrgency (fallbackAnalysis title description)
       = Fin (if present urgentKeywords title description then 9 else 5)
   \<and> sentiment (fallbackAnalysis title description) = ''neutral''
   \<and> confidenceScore (fallbackAnalysis title description) = 70
   \<and> suggestedSubtasks (fallbackAnalysis title description) = []
   \<and> optimalTimeSlot (fallbackAnalysis title description) = ''flexible''
   \<and> (present urgentKeywords title description \<longleftrightarrow>
        list_ex (\<lambda>k. str_includes (toLowerCase title) k
                   \<or> str_includes (toLowerCase description) k) urgentKeywords)
   \<and> (present complexKeywords title description \<longleftrightarrow>
        list_ex (\<lambda>k. str_includes (toLowerCase title) k
                   \<or> str_includes (toLowerCase description) k) complexKeywords)"
  using present_either [OF keywords_plain(1)] present_either [OF keywords_plain(2)]
  by (simp add: fallbackAnalysis_def present_def decision_table_def Let_def)

theorem fallbackAnalysis_decision_table_witness:
  "priority (fallbackAnalysis ''Fix urgent production bug'' ''Critical deadline tomorrow'') = Fin 8
   \<and> estimatedHours (fallbackAnalysis ''Fix urgent production bug'' ''Critical deadline tomorrow'')
       = Fin 2
   \<and> complexity (fallbackAnalysis ''Fix urgent production bug'' ''Critical deadline tomorrow'')
       = ''medium''
   \<and> deadlineUrgency (fallbackAnalysis ''Fix urgent production bug'' ''Critical deadline tomorrow'')
       = Fin 9
   \<and> sentiment (fallbackAnalysis ''Fix urgent production bug'' ''Critical deadline tomorrow'')
       = ''neutral''
   \<and> confidenceScore (fallbackAnalysis ''Fix urgent production bug'' ''Critical deadline tomorrow'')
       = 70"
  using fallbackAnalysis_decision_table
    [of "''Fix urgent production bug''" "''Critical deadline tomorrow''"]
  by (simp add: sample_presence decision_table_def)

text \<open>
  C7 as stated, with the presence read in \<^verbatim>\<open>title+description\<close>, fails where a keyword
  lies across the two texts: \<^verbatim>\<open>"Release as" + "appropriate"\<close> contains \<^verbatim>\<open>asap\<close>, which the
  table sends to priority 8, while the code, which puts a space between the two, finds
  no keyword and gives priority 4.
\<close>

theorem fallbackAnalysis_keyword_across_fields:
  "spec_present urgentKeywords ''Release as'' ''appropriate''
   \<and> fst (decision_table (spec_present urgentKeywords ''Release as'' ''appropriate'')
            (spec_present complexKeywords ''Release as'' ''appropriate'')) = Fin 8
   \<and> priority (fallbackAnalysis ''Release as'' ''appropriate'') = Fin 4"
  by code_simp

section \<open>The response parser\<close>

lemma rev_dropWhile_split:
  "xs = rev (dropWhile Q (rev xs)) @ rev (takeWhile Q (rev xs))"
  by (metis rev_append rev_rev_ident takeWhile_dropWhile_id)

lemma json_region_unfold:
  assumes "dropWhile (\<lambda>c. c \<noteq> CHR ''{'') s = c # rest"
  shows "json_region s =
    (if CHR ''}'' \<in> set rest
     then Some (CHR ''{'' # rev (dropWhile (\<lambda>c. c \<noteq> CHR ''}'') (rev rest)))
     else None)"
proof -
  have c: "c = CHR ''{''"
    using assms hd_dropWhile [of "\<lambda>c. c \<noteq> CHR ''{''" s] by auto
  let ?body = "rev (dropWhile (\<lambda>c. c \<noteq> CHR ''}'') (rev rest))"
  have unfolded: "json_region s = (case ?body of [] \<Rightarrow> None | b \<Rightarrow> Some (c # b))"
    by (simp only: json_region_def assms list.case)
  show ?thesis
  proof (cases "CHR ''}'' \<in> set rest")
    case True
    then have "?body \<noteq> []"
      by (auto simp add: dropWhile_eq_Nil_conv)
    then show ?thesis
      using unfolded c True by (cases ?body) simp_all
  next
    case False
    then have e: "dropWhile (\<lambda>c. c \<noteq> CHR ''}'') (rev rest) = []"
      by (intro dropWhile_eq_Nil_conv [THEN iffD2]) auto
    show ?thesis
      unfolding unfolded e using False by simp
  qed
qed

lemma json_region_no_open:
  assumes "CHR ''{'' \<notin> set s"
  shows "json_region s = None"
proof -
  have d: "dropWhile (\<lambda>c. c \<noteq> CHR ''{'') s = []"
    by (rule dropWhile_eq_Nil_conv [THEN iffD2]) (use assms in auto)
  show ?thesis
    unfolding json_region_def d by simp
qed

lemma json_region_SomeD:
  assumes "json_region s = Some m"
  shows "\<exists>pre mid post. s = pre @ m @ post \<and> m = CHR ''{'' # mid @ [CHR ''}'']
     \<and> CHR ''{'' \<notin> set pre \<and> CHR ''}'' \<notin> set post"
proof -
  let ?pre = "takeWhile (\<lambda>c. c \<noteq> CHR ''{'') s"
  from assms obtain c rest where d: "dropWhile (\<lambda>c. c \<noteq> CHR ''{'') s = c # rest"
    by (auto simp add: json_region_def split: list.splits)
  then have c: "c = CHR ''{''"
    using hd_dropWhile [of "\<lambda>c. c \<noteq> CHR ''{''" s] by auto
  let ?body = "rev (dropWhile (\<lambda>c. c \<noteq> CHR ''}'') (rev rest))"
  let ?post = "rev (takeWhile (\<lambda>c. c \<noteq> CHR ''}'') (rev rest))"
  from assms json_region_unfold [OF d] have close: "CHR ''}'' \<in> set rest" and m: "m = CHR ''{'' # ?body"
    by (auto split: if_splits)
  from close have ne: "dropWhile (\<lambda>c. c \<noteq> CHR ''}'') (rev rest) \<noteq> []"
    by (auto simp add: dropWhile_eq_Nil_conv)
  then have "hd (dropWhile (\<lambda>c. c \<noteq> CHR ''}'') (rev rest)) = CHR ''}''"
    using hd_dropWhile [of "\<lambda>c. c \<noteq> CHR ''}''" "rev rest"] by auto
  then have "last ?body = CHR ''}''"
    using ne by (simp add: last_rev)
  moreover have "?body \<noteq> []" using ne by simp
  ultimately obtain mid where mid: "?body = mid @ [CHR ''}'']"
    by (metis append_butlast_last_id)
  have "s = ?pre @ c # rest"
    using d by (metis takeWhile_dropWhile_id)
  moreover have "rest = ?body @ ?post"
    by (rule rev_dropWhile_split)
  ultimately have "s = ?pre @ m @ ?post"
    using m c by simp
  moreover have "CHR ''{'' \<notin> set ?pre"
    by (auto dest: set_takeWhileD)
  moreover have "CHR ''}'' \<notin> set ?post"
    by (auto dest: set_takeWhileD)
  ultimately show ?thesis
    using m mid by blast
qed

lemma json_region_SomeI:
  assumes "s = pre @ m @ post" and "m = CHR ''{'' # mid @ [CHR ''}'']"
    and "CHR ''{'' \<notin> set pre" and "CHR ''}'' \<notin> set post"
  shows "json_region s = Some m"
proof -
  have "dropWhile (\<lambda>c. c \<noteq> CHR ''{'') (pre @ m @ post)
      = dropWhile (\<lambda>c. c \<noteq> CHR ''{'') (m @ post)"
    by (rule dropWhile_append2) (use assms(3) in auto)
  then have "dropWhile (\<lambda>c. c \<noteq> CHR ''{'') s = CHR ''{'' # mid @ CHR ''}'' # post"
    using assms(1,2) by simp
  moreover have "dropWhile (\<lambda>c. c \<noteq> CHR ''}'') (rev post @ CHR ''}'' # rev mid)
      = dropWhile (\<lambda>c. c \<noteq> CHR ''}'') (CHR ''}'' # rev mid)"
    by (rule dropWhile_append2) (use assms(4) in auto)
  then have "dropWhile (\<lambda>c. c \<noteq> CHR ''}'') (rev (mid @ CHR ''}'' # post))
      = CHR ''}'' # rev mid"
    by simp
  ultimately show ?thesis
    using assms(2) json_region_unfold [of s "CHR ''{''" "mid @ CHR ''}'' # post"] by simp
qed

lemma json_region_Some_iff:
  "json_region s = Some m \<longleftrightarrow>
     (\<exists>pre mid post. s = pre @ m @ post \<and> m = CHR ''{'' # mid @ [CHR ''}'']
        \<and> CHR ''{'' \<notin> set pre \<and> CHR ''}'' \<notin> set post)"
proof
  assume "json_region s = Some m"
  then show "\<exists>pre mid post. s = pre @ m @ post \<and> m = CHR ''{'' # mid @ [CHR ''}'']
        \<and> CHR ''{'' \<notin> set pre \<and> CHR ''}'' \<notin> set post"
    by (rule json_region_SomeD)
next
  assume "\<exists>pre mid post. s = pre @ m @ post \<and> m = CHR ''{'' # mid @ [CHR ''}'']
        \<and> CHR ''{'' \<notin> set pre \<and> CHR ''}'' \<notin> set post"
  then obtain pre mid post where "s = pre @ m @ post" and "m = CHR ''{'' # mid @ [CHR ''}'']"
    and "CHR ''{'' \<notin> set pre" and "CHR ''}'' \<notin> set post"
    by blast
  then show "json_region s = Some m"
    by (rule json_region_SomeI)
qed

lemma first_open_before:
  assumes "s = pre @ CHR ''{'' # after"
  shows "\<exists>rest. dropWhile (\<lambda>c. c \<noteq> CHR ''{'') s = CHR ''{'' # rest \<and> set after \<subseteq> set rest"
  using assms
proof (induction pre arbitrary: s)
  case Nil
  then show ?case by simp
next
  case (Cons a pre)
  then show ?case by (cases "a = CHR ''{''") auto
qed

lemma json_region_None_iff:
  "json_region s = None \<longleftrightarrow> \<not> (\<exists>pre mid post. s = pre @ CHR ''{'' # mid @ CHR ''}'' # post)"
proof
  assume none: "json_region s = None"
  show "\<not> (\<exists>pre mid post. s = pre @ CHR ''{'' # mid @ CHR ''}'' # post)"
  proof
    assume "\<exists>pre mid post. s = pre @ CHR ''{'' # mid @ CHR ''}'' # post"
    then obtain pre mid post where s: "s = pre @ CHR ''{'' # mid @ CHR ''}'' # post"
      by blast
    from first_open_before [OF s] obtain rest where
      "dropWhile (\<lambda>c. c \<noteq> CHR ''{'') s = CHR ''{'' # rest" and "CHR ''}'' \<in> set rest"
      by auto
    then show False
      using none json_region_unfold [of s "CHR ''{''" rest] by simp
  qed
next
  assume "\<not> (\<exists>pre mid post. s = pre @ CHR ''{'' # mid @ CHR ''}'' # post)"
  then show "json_region s = None"
    using json_region_SomeD [of s] by (cases "json_region s") (auto, metis append_Cons append_assoc)
qed

lemma json_region_no_close:
  assumes "CHR ''}'' \<notin> set s"
  shows "json_region s = None"
  using assms by (auto simp add: json_region_None_iff)

lemma parse_response_Inr_iff:
  "parse_response P reply = Inr v \<longleftrightarrow> (\<exists>m. json_region reply = Some m \<and> JSON_parse P m = Some v)"
  by (auto simp add: parse_response_def split: option.splits)

lemma parse_response_Inl_iff:
  "(\<exists>e. parse_response P reply = Inl e) \<longleftrightarrow>
     json_region reply = None \<or> (\<exists>m. json_region reply = Some m \<and> JSON_parse P m = None)"
  by (auto simp add: parse_response_def split: option.splits)

lemma sample_region: "json_region (''noise '' @ obj_a1 @ '' noise'') = Some obj_a1"
  by code_simp

lemma sample_parse_a1: "JSON_parse sample_platform obj_a1 = Some (JObj [(''a'', JNum (Fin 1))])"
  by code_simp

text \<open>
  C3, as amended. Given any raw reply text, the parser takes the region from the first
  opening brace to the last closing brace after it (so it locates no array, and not the
  first balanced object when a later closing brace follows) and parses the region with
  \<^verbatim>\<open>JSON.parse\<close>. There is no such region exactly when no opening brace is followed by a
  closing one. The parser returns what \<^verbatim>\<open>JSON.parse\<close> makes of the region, and it fails
  exactly when there is no region or the region is not valid JSON. In particular
  \<^verbatim>\<open>noise {"a":1} noise\<close> parses to what \<^verbatim>\<open>JSON.parse\<close> makes of \<^verbatim>\<open>{"a":1}\<close>, and a reply
  with no opening or no closing brace fails.
\<close>

theorem parse_response_greedy_region:
  "(json_region reply = None \<longleftrightarrow>
      \<not> (\<exists>pre mid post. reply = pre @ CHR ''{'' # mid @ CHR ''}'' # post))
   \<and> (\<forall>m. json_region reply = Some m \<longleftrightarrow>
        (\<exists>pre mid post. reply = pre @ m @ post \<and> m = CHR ''{'' # mid @ [CHR ''}'']
           \<and> CHR ''{'' \<notin> set pre \<and> CHR ''}'' \<notin> set post))
   \<and> (\<forall>v. parse_response P reply = Inr v \<longleftrightarrow>
        (\<exists>m. json_region reply = Some m \<and> JSON_parse P m = Some v))
   \<and> ((\<exists>e. parse_response P reply = Inl e) \<longleftrightarrow>
        json_region reply = None \<or> (\<exists>m. json_region reply = Some m \<and> JSON_parse P m = None))
   \<and> (\<forall>v. JSON_parse P obj_a1 = Some v \<longrightarrow>
        parse_response P (''noise '' @ obj_a1 @ '' noise'') = Inr v)
   \<and> (CHR ''{'' \<notin> set reply \<or> CHR ''}'' \<notin> set reply \<longrightarrow> (\<exists>e. parse_response P reply = Inl e))"
proof (intro conjI allI impI)
  show "json_region reply = None \<longleftrightarrow>
      \<not> (\<exists>pre mid post. reply = pre @ CHR ''{'' # mid @ CHR ''}'' # post)"
    by (rule json_region_None_iff)
  show "json_region reply = Some m \<longleftrightarrow>
        (\<exists>pre mid post. reply = pre @ m @ post \<and> m = CHR ''{'' # mid @ [CHR ''}'']
           \<and> CHR ''{'' \<notin> set pre \<and> CHR ''}'' \<notin> set post)" for m
    by (rule json_region_Some_iff)
  show "parse_response P reply = Inr v \<longleftrightarrow>
        (\<exists>m. json_region reply = Some m \<and> JSON_parse P m = Some v)" for v
    by (rule parse_response_Inr_iff)
  show "(\<exists>e. parse_response P reply = Inl e) \<longleftrightarrow>
        json_region reply = None \<or> (\<exists>m. json_region reply = Some m \<and> JSON_parse P m = None)"
    by (rule parse_response_Inl_iff)
  show "parse_response P (''noise '' @ obj_a1 @ '' noise'') = Inr v"
    if "JSON_parse P obj_a1 = Some v" for v
    using that sample_region by (simp only: parse_response_Inr_iff) blast
  show "\<exists>e. parse_response P reply = Inl e"
    if "CHR ''{'' \<notin> set reply \<or> CHR ''}'' \<notin> set reply"
    using that json_region_no_open [of reply] json_region_no_close [of reply]
    by (auto simp add: parse_response_Inl_iff)
qed

theorem parse_response_greedy_region_witness:
  "parse_response sample_platform (''noise '' @ obj_a1 @ '' noise'')
     = Inr (JObj [(''a'', JNum (Fin 1))])
   \<and> (\<exists>e. parse_response sample_platform ''no json here'' = Inl e)"
proof -
  have "CHR ''{'' \<notin> set ''no json here''"
    by simp
  then show ?thesis
    using parse_response_greedy_region [of "''no json here''" sample_platform] sample_parse_a1
    by blast
qed

text \<open>
  C3 as stated fails: the specification's parser finds the array in \<^verbatim>\<open>[1,2]\<close> and the
  first balanced object in \<^verbatim>\<open>{"a":1} and {"b":2}\<close>, where the code finds no region in the
  first text and, in the second, the whole text, which is not valid JSON.
\<close>

theorem parse_response_not_first_balanced:
  "parse_response sample_platform ''[1,2]'' = Inl (Error ''No JSON found in response'')
   \<and> spec_parse_response sample_platform ''[1,2]'' = Some (JArr [JNum (Fin 1), JNum (Fin 2)])
   \<and> json_region (obj_a1 @ '' and '' @ obj_b2) = Some (obj_a1 @ '' and '' @ obj_b2)
   \<and> first_balanced_region (obj_a1 @ '' and '' @ obj_b2) = Some obj_a1
   \<and> parse_response sample_platform (obj_a1 @ '' and '' @ obj_b2) = Inl SyntaxError
   \<and> spec_parse_response sample_platform (obj_a1 @ '' and '' @ obj_b2)
       = Some (JObj [(''a'', JNum (Fin 1))])"
  by code_simp

section \<open>Voice input\<close>

text \<open>
  C4. With the service not initialized (no API key was given to \<^verbatim>\<open>initialize\<close>),
  \<^verbatim>\<open>parseVoiceToTask\<close> performs no call, returns no task object and raises; but what it
  raises is not the 503 "AI service not available" that its first statement throws: that
  throw is inside the \<^verbatim>\<open>try\<close> block, and the \<^verbatim>\<open>catch\<close> replaces it by the 500 "Failed to
  process voice input".
\<close>

theorem parseVoiceToTask_uninitialized:
  "initialize None False = False
   \<and> snd (parseVoiceToTask_try P False E transcription)
       = Inl (CustomError ''AI service not available'' 503)
   \<and> parseVoiceToTask P (initialize None False) E transcription
       = ([], Inl (CustomError ''Failed to process voice input'' 500))"
  by (simp add: initialize_def parseVoiceToTask_def parseVoiceToTask_try_def io_catch_def
      io_throw_def)

section \<open>The cache check of analyzeTask\<close>

lemma analyzeTask_hit:
  assumes "RedisClient_get E (analysis_cacheKey P t d) = Inr (Some s)" and "s \<noteq> []"
  shows "analyzeTask P True E t d c =
    ([CacheGet (analysis_cacheKey P t d)],
     case JSON_parse P s of
       Some v \<Rightarrow> Inr (FromCache v)
     | None \<Rightarrow> Inr (Computed (fallbackAnalysis t d)))"
  using assms
  by (cases "JSON_parse P s")
     (simp_all add: analyzeTask_def analyzeTask_try_def Let_def cache_get_def io_bind_def
       io_catch_def io_return_def io_throw_def json_parse_io_def)

lemma sample_key: "analysis_cacheKey sample_platform ''Ship it'' ''great'' = ''task_analysis:U2hpcCBpdGdyZWF0''"
  by code_simp

text \<open>
  C9, as amended. For every \<^verbatim>\<open>analyzeTask\<close> invocation with the service initialized, if the
  cache read for the derived key returns a string that is not empty, the call
  short-circuits: its only effect is that cache read (no prompt is built, no remote
  call is made, nothing is written to the cache), and it returns the cached value
  deserialized, with no field validation applied, when the string is valid JSON, and the
  heuristic fallback when it is not. An empty cached string counts as a miss.
\<close>

theorem analyzeTask_cache_hit_short_circuits:
  assumes "RedisClient_get E (analysis_cacheKey P title description) = Inr (Some s)"
    and "s \<noteq> []"
  shows "fst (analyzeTask P True E title description ctx)
      = [CacheGet (analysis_cacheKey P title description)]
    \<and> (\<forall>v. JSON_parse P s = Some v \<longrightarrow>
          snd (analyzeTask P True E title description ctx) = Inr (FromCache v))
    \<and> (JSON_parse P s = None \<longrightarrow>
          snd (analyzeTask P True E title description ctx)
            = Inr (Computed (fallbackAnalysis title description)))"
  using analyzeTask_hit [OF assms, of ctx] by simp

theorem analyzeTask_cache_hit_short_circuits_witness:
  "fst (analyzeTask sample_platform True (answering (Some obj_a1) reply_priority5)
          ''Ship it'' ''great'' None)
     = [CacheGet ''task_analysis:U2hpcCBpdGdyZWF0'']
   \<and> snd (analyzeTask sample_platform True (answering (Some obj_a1) reply_priority5)
          ''Ship it'' ''great'' None)
     = Inr (FromCache (JObj [(''a'', JNum (Fin 1))]))"
proof -
  have g: "RedisClient_get (answering (Some obj_a1) reply_priority5)
      (analysis_cacheKey sample_platform ''Ship it'' ''great'') = Inr (Some obj_a1)"
    by (simp add: answering_def)
  have ne: "obj_a1 \<noteq> []"
    by (simp add: obj_a1_def)
  show ?thesis
    using analyzeTask_cache_hit_short_circuits [OF g ne, of None] sample_parse_a1
    by (simp add: sample_key)
qed

text \<open>
  C9 as stated fails on a stored string that is corrupt, where the call returns the
  heuristic fallback and not the cached value, and on a stored string that is empty,
  where the call goes on to the remote client.
\<close>

theorem analyzeTask_cache_hit_not_verbatim:
  "analyzeTask sample_platform True (answering (Some ''oops'') reply_priority5)
      ''Ship it'' ''great'' None
     = ([CacheGet ''task_analysis:U2hpcCBpdGdyZWF0''],
        Inr (Computed (fallbackAnalysis ''Ship it'' ''great'')))
   \<and> calls_remote (fst (analyzeTask sample_platform True (answering (Some []) reply_priority5)
        ''Ship it'' ''great'' None))"
  by code_simp

section \<open>The limit of generateTaskSuggestions\<close>

lemma suggestions_hit:
  assumes "RedisClient_get E (suggestions_cacheKey P u x) = Inr (Some s)" and "s \<noteq> []"
    and "JSON_parse P s = Some v"
  shows "generateTaskSuggestions P True E u x limit_arg = ([CacheGet (suggestions_cacheKey P u x)], Inr v)"
  using assms
  by (simp add: generateTaskSuggestions_def generateTaskSuggestions_try_def Let_def cache_get_def
      io_bind_def io_catch_def io_return_def io_throw_def json_parse_io_def)

lemma suggestions_miss:
  assumes "RedisClient_get E (suggestions_cacheKey P u x) = Inr cached" and "\<not> truthy_string cached"
    and "n = (case limit_arg of None \<Rightarrow> Fin 5 | Some l \<Rightarrow> l)"
    and "req = suggestions_request (suggestions_prompt P x n)"
    and "openai_create E req = Inr resp"
    and "JSON_parse P (content_or (first_content resp) ''[]'') = Some sug"
    and "JSON_stringify P sug = Inr ser"
    and "RedisClient_setex E (suggestions_cacheKey P u x) 1800 ser = Inr ()"
  shows "generateTaskSuggestions P True E u x limit_arg =
    ([CacheGet (suggestions_cacheKey P u x), RemoteCall req,
      CacheSetex (suggestions_cacheKey P u x) 1800 ser],
     Inr (case sug of JArr xs \<Rightarrow> JArr (slice_to xs n) | _ \<Rightarrow> getDefaultSuggestions))"
proof -
  have "generateTaskSuggestions_miss P E (suggestions_cacheKey P u x) x n =
    ([RemoteCall req, CacheSetex (suggestions_cacheKey P u x) 1800 ser],
     Inr (case sug of JArr xs \<Rightarrow> JArr (slice_to xs n) | _ \<Rightarrow> getDefaultSuggestions))"
    using assms(4-8)
    by (simp add: generateTaskSuggestions_miss_def remote_create_def cache_setex_def
        io_bind_def io_return_def io_throw_def io_lift_def json_parse_io_def)
  then show ?thesis
    using assms(1-3)
    by (cases cached)
       (simp_all add: generateTaskSuggestions_def generateTaskSuggestions_try_def Let_def
         cache_get_def io_bind_def io_catch_def)
qed

lemma length_slice_to: "0 \<le> q \<Longrightarrow> of_nat (length (slice_to xs (Fin q))) \<le> q"
proof -
  assume q: "0 \<le> q"
  then have "0 \<le> \<lfloor>q\<rfloor>" by simp
  have "length (take (nat \<lfloor>q\<rfloor>) xs) \<le> nat \<lfloor>q\<rfloor>" by simp
  then have "(of_nat (length (take (nat \<lfloor>q\<rfloor>) xs)) :: rat) \<le> of_nat (nat \<lfloor>q\<rfloor>)"
    by (simp only: of_nat_le_iff)
  also have "(of_nat (nat \<lfloor>q\<rfloor>) :: rat) = of_int \<lfloor>q\<rfloor>" using \<open>0 \<le> \<lfloor>q\<rfloor>\<close> by simp
  also have "\<dots> \<le> q" by simp
  finally show ?thesis using q by (simp add: Let_def not_less)
qed

lemma sample_suggestions_key:
  "suggestions_cacheKey sample_platform ''u1'' ''sprint'' = ''task_suggestions:u1:c3ByaW50''"
  by code_simp

lemma sample_abc:
  "JSON_parse sample_platform array_abc = Some (JArr [JStr ''a'', JStr ''b'', JStr ''c''])"
  "JSON_stringify sample_platform (JArr [JStr ''a'', JStr ''b'', JStr ''c'']) = Inr array_abc"
  "array_abc \<noteq> []"
  by code_simp+

text \<open>
  C10, as amended. \<^verbatim>\<open>generateTaskSuggestions\<close> enforces its limit only on the cache-miss
  path. On a hit (a cached string that is not empty and is valid JSON) the only effect
  is the cache read and the deserialized value is returned as it is, whatever the limit.
  On a miss, when the remote call, the parsing of the reply and the cache write succeed,
  the value written to the cache is the serialization of the whole parsed reply, before
  the array check and the truncation; the call returns the first \<open>limit\<close> elements when
  the parsed reply is an array, and otherwise the five default suggestions whatever the
  limit. An array truncated to a limit that is not negative has at most \<open>limit\<close> elements.
\<close>

theorem generateTaskSuggestions_limit_on_miss_only:
  "(\<forall>s v. RedisClient_get E (suggestions_cacheKey P userId uctx) = Inr (Some s) \<and> s \<noteq> []
        \<and> JSON_parse P s = Some v \<longrightarrow>
      generateTaskSuggestions P True E userId uctx limit_arg
        = ([CacheGet (suggestions_cacheKey P userId uctx)], Inr v))
   \<and> (\<forall>cached n req resp sug ser.
        RedisClient_get E (suggestions_cacheKey P userId uctx) = Inr cached
        \<and> \<not> truthy_string cached
        \<and> n = (case limit_arg of None \<Rightarrow> Fin 5 | Some l \<Rightarrow> l)
        \<and> req = suggestions_request (suggestions_prompt P uctx n)
        \<and> openai_create E req = Inr resp
        \<and> JSON_parse P (content_or (first_content resp) ''[]'') = Some sug
        \<and> JSON_stringify P sug = Inr ser
        \<and> RedisClient_setex E (suggestions_cacheKey P userId uctx) 1800 ser = Inr () \<longrightarrow>
      generateTaskSuggestions P True E userId uctx limit_arg
        = ([CacheGet (suggestions_cacheKey P userId uctx), RemoteCall req,
            CacheSetex (suggestions_cacheKey P userId uctx) 1800 ser],
           Inr (case sug of JArr xs \<Rightarrow> JArr (slice_to xs n) | _ \<Rightarrow> getDefaultSuggestions)))
   \<and> (\<forall>(xs :: json list) q. 0 \<le> q \<longrightarrow> of_nat (length (slice_to xs (Fin q))) \<le> q)"
  by (intro conjI allI impI; (elim conjE)?)
     (blast intro: suggestions_hit suggestions_miss length_slice_to)+

theorem generateTaskSuggestions_limit_on_miss_only_witness:
  "generateTaskSuggestions sample_platform True (answering None array_abc) ''u1'' ''sprint''
      (Some (Fin 2))
     = ([CacheGet ''task_suggestions:u1:c3ByaW50'',
         RemoteCall (suggestions_request (suggestions_prompt sample_platform ''sprint'' (Fin 2))),
         CacheSetex ''task_suggestions:u1:c3ByaW50'' 1800 array_abc],
        Inr (JArr [JStr ''a'', JStr ''b'']))
   \<and> generateTaskSuggestions sample_platform True (answering (Some array_abc) []) ''u1''
        ''sprint'' (Some (Fin 2))
     = ([CacheGet ''task_suggestions:u1:c3ByaW50''],
        Inr (JArr [JStr ''a'', JStr ''b'', JStr ''c'']))"
proof -
  have hit: "RedisClient_get (answering (Some array_abc) [])
        (suggestions_cacheKey sample_platform ''u1'' ''sprint'') = Inr (Some array_abc)"
    by (simp add: answering_def)
  have miss: "RedisClient_get (answering None array_abc)
        (suggestions_cacheKey sample_platform ''u1'' ''sprint'') = Inr None"
    "\<not> truthy_string None"
    "openai_create (answering None array_abc)
       (suggestions_request (suggestions_prompt sample_platform ''sprint'' (Fin 2)))
     = Inr [Choice (Some (Message (Some array_abc)))]"
    "JSON_parse sample_platform
       (content_or (first_content [Choice (Some (Message (Some array_abc)))]) ''[]'')
     = Some (JArr [JStr ''a'', JStr ''b'', JStr ''c''])"
    "RedisClient_setex (answering None array_abc)
       (suggestions_cacheKey sample_platform ''u1'' ''sprint'') 1800 array_abc = Inr ()"
    using sample_abc by (simp_all add: answering_def)
  have cut: "slice_to [JStr ''a'', JStr ''b'', JStr ''c''] (Fin 2) = [JStr ''a'', JStr ''b'']"
    by code_simp
  note main = generateTaskSuggestions_limit_on_miss_only
  from main [of "answering (Some array_abc) []" sample_platform "''u1''" "''sprint''"
      "Some (Fin 2)"] hit sample_abc
  have second: "generateTaskSuggestions sample_platform True (answering (Some array_abc) [])
      ''u1'' ''sprint'' (Some (Fin 2))
     = ([CacheGet (suggestions_cacheKey sample_platform ''u1'' ''sprint'')],
        Inr (JArr [JStr ''a'', JStr ''b'', JStr ''c'']))"
    by blast
  from main [of "answering None array_abc" sample_platform "''u1''" "''sprint''"
      "Some (Fin 2)"] miss sample_abc
  have first: "generateTaskSuggestions sample_platform True (answering None array_abc)
      ''u1'' ''sprint'' (Some (Fin 2))
     = ([CacheGet (suggestions_cacheKey sample_platform ''u1'' ''sprint''),
         RemoteCall (suggestions_request (suggestions_prompt sample_platform ''sprint'' (Fin 2))),
         CacheSetex (suggestions_cacheKey sample_platform ''u1'' ''sprint'') 1800 array_abc],
        Inr (case JArr [JStr ''a'', JStr ''b'', JStr ''c''] of
               JArr xs \<Rightarrow> JArr (slice_to xs (Fin 2)) | _ \<Rightarrow> getDefaultSuggestions))"
    by (simp only: option.case)
  show ?thesis
    using first second by (simp add: cut sample_suggestions_key)
qed

text \<open>
  C10 as stated fails in its last part: on the miss path a reply that is valid JSON but
  not an array gives the five default suggestions, more than a limit of 2; and a negative
  limit counts from the end of the array.
\<close>

theorem generateTaskSuggestions_miss_over_limit:
  "snd (generateTaskSuggestions sample_platform True (answering None ''{}'') ''u1'' ''sprint''
          (Some (Fin 2))) = Inr getDefaultSuggestions
   \<and> array_length (Some getDefaultSuggestions) = 5
   \<and> snd (generateTaskSuggestions sample_platform True (answering None array_abc) ''u1''
          ''sprint'' (Some (Fin (- 1)))) = Inr (JArr [JStr ''a'', JStr ''b''])"
  by code_simp

section \<open>Where the sentiment comes from\<close>

lemma analyzeTask_validated:
  assumes "RedisClient_get E (analysis_cacheKey P t d) = Inr cached" and "\<not> truthy_string cached"
    and "buildAnalysisPrompt P t d c = Inr prompt"
    and "openai_create E (analysis_request prompt) = Inr resp"
    and "first_content resp = Some reply" and "reply \<noteq> []"
    and "parse_response P reply = Inr an"
    and "finalAnalysis P an d = Inr a"
    and "JSON_stringify P (analysis_json a) = Inr ser"
    and "RedisClient_setex E (analysis_cacheKey P t d) 3600 ser = Inr ()"
  shows "snd (analyzeTask P True E t d c) = Inr (Computed a)"
proof -
  have "snd (analyzeTask_miss P E (analysis_cacheKey P t d) t d c) = Inr (Computed a)"
    using assms(3-10) by (simp add: analyzeTask_miss_def snd_io_bind)
  then show ?thesis
    using analyzeTask_try_miss [OF _ assms(1,2), of True c] by (simp add: analyzeTask_caught)
qed

lemma fallbackAnalysis_sentiment: "sentiment (fallbackAnalysis t d) = ''neutral''"
  by (simp add: fallbackAnalysis_def Let_def)

lemma computed_sentiment:
  assumes "snd (analyzeTask P init E t d c) = Inr (Computed a)"
  shows "sentiment a = sentiment_label (analyzeSentiment P d) \<or> sentiment a = ''neutral''"
  using analyzeTask_cases [of P init E t d c] assms
  by (auto simp add: fallbackAnalysis_sentiment finalAnalysis_sentiment)

lemma sample_stringify_total: "\<exists>s. JSON_stringify sample_platform v = Inr s"
  by (cases "map_of
        [(JArr [JStr ''a'', JStr ''b'', JStr ''c''], array_abc),
         (JArr [], ''[]''),
         (JObj [], ''{}''),
         (JObj [(''a'', JNum (Fin 1))], obj_a1)] v")
     (simp_all add: sample_platform_def sample_stringify_def)

lemma sample_local_sentiment: "sentiment_label (analyzeSentiment sample_platform ''great'') = ''positive''"
  by code_simp

lemma sample_validation:
  "parse_response sample_platform reply_priority5 = Inr (JObj [(''priority'', JNum (Fin 5))])"
  "finalAnalysis sample_platform (JObj [(''priority'', JNum (Fin 5))]) ''great''
     = Inr \<lparr> priority = Fin 5, estimatedHours = Fin 2, complexity = ''medium'',
         sentiment = ''positive'', tags = [], deadlineUrgency = Fin 5, suggestedSubtasks = [],
         optimalTimeSlot = ''flexible'', confidenceScore = 65 \<rparr>"
  "parse_response sample_platform obj_a1 = Inr (JObj [(''a'', JNum (Fin 1))])"
  "finalAnalysis sample_platform (JObj [(''a'', JNum (Fin 1))]) ''great''
     = Inr \<lparr> priority = Fin 5, estimatedHours = Fin 2, complexity = ''medium'',
         sentiment = ''positive'', tags = [], deadlineUrgency = Fin 5, suggestedSubtasks = [],
         optimalTimeSlot = ''flexible'', confidenceScore = 55 + 5 \<rparr>"
  "reply_priority5 \<noteq> []" "obj_a1 \<noteq> []"
  by code_simp+

text \<open>
  C8, as amended. The sentiment field of \<^verbatim>\<open>analyzeTask\<close>'s result is computed locally and
  never read from the remote reply: whatever the collaborators do, the sentiment of a
  computed result is the label of the sign of the local sentiment score of the description
  (positive, negative or neutral), or the neutral of the heuristic fallback. For any two
  runs on the same title, description and context that differ only in the remote model's
  reply, and in which the reply is parsed, every field is validated without a throw and
  the result is written to the cache, the sentiment of the two results is identical, and
  it is positive, negative or neutral according to the sign of the local sentiment score
  of the description.
\<close>

theorem sentiment_computed_locally:
  assumes "RedisClient_get E (analysis_cacheKey P title description) = Inr cached"
    and "\<not> truthy_string cached"
    and "buildAnalysisPrompt P title description ctx = Inr prompt"
    and "create1 (analysis_request prompt) = Inr resp1"
    and "first_content resp1 = Some reply1" and "reply1 \<noteq> []"
    and "parse_response P reply1 = Inr an1"
    and "finalAnalysis P an1 description = Inr a1"
    and "JSON_stringify P (analysis_json a1) = Inr ser1"
    and "RedisClient_setex E (analysis_cacheKey P title description) 3600 ser1 = Inr ()"
    and "create2 (analysis_request prompt) = Inr resp2"
    and "first_content resp2 = Some reply2" and "reply2 \<noteq> []"
    and "parse_response P reply2 = Inr an2"
    and "finalAnalysis P an2 description = Inr a2"
    and "JSON_stringify P (analysis_json a2) = Inr ser2"
    and "RedisClient_setex E (analysis_cacheKey P title description) 3600 ser2 = Inr ()"
  shows "snd (analyzeTask P True (E\<lparr>openai_create := create1\<rparr>) title description ctx)
      = Inr (Computed a1)
    \<and> snd (analyzeTask P True (E\<lparr>openai_create := create2\<rparr>) title description ctx)
      = Inr (Computed a2)
    \<and> sentiment a1 = sentiment a2
    \<and> sentiment a1 = sentiment_label (analyzeSentiment P description)
    \<and> (\<forall>init0 E0 a. snd (analyzeTask P init0 E0 title description ctx) = Inr (Computed a) \<longrightarrow>
          sentiment a = sentiment_label (analyzeSentiment P description)
          \<or> sentiment a = ''neutral'')"
proof (intro conjI allI impI)
  show "snd (analyzeTask P True (E\<lparr>openai_create := create1\<rparr>) title description ctx)
      = Inr (Computed a1)"
    using assms(1-10) by (intro analyzeTask_validated) simp_all
  show "snd (analyzeTask P True (E\<lparr>openai_create := create2\<rparr>) title description ctx)
      = Inr (Computed a2)"
    using assms(1-3,11-17) by (intro analyzeTask_validated) simp_all
  show "sentiment a1 = sentiment a2"
    using assms(8,15) by (simp add: finalAnalysis_sentiment)
  show "sentiment a1 = sentiment_label (analyzeSentiment P description)"
    using assms(8) by (simp add: finalAnalysis_sentiment)
  show "sentiment a = sentiment_label (analyzeSentiment P description)
      \<or> sentiment a = ''neutral''"
    if "snd (analyzeTask P init0 E0 title description ctx) = Inr (Computed a)" for init0 E0 a
    using that by (rule computed_sentiment)
qed

theorem sentiment_computed_locally_witness:
  "\<exists>a1 a2.
     snd (analyzeTask sample_platform True
            ((answering None [])\<lparr>openai_create := replying reply_priority5\<rparr>)
            ''Ship it'' ''great'' None) = Inr (Computed a1)
   \<and> snd (analyzeTask sample_platform True
            ((answering None [])\<lparr>openai_create := replying obj_a1\<rparr>)
            ''Ship it'' ''great'' None) = Inr (Computed a2)
   \<and> sentiment a1 = sentiment a2
   \<and> sentiment a1 = ''positive''"
proof -
  obtain prompt where p: "buildAnalysisPrompt sample_platform ''Ship it'' ''great'' None = Inr prompt"
    by (simp add: buildAnalysisPrompt_def)
  have g: "RedisClient_get (answering None [])
      (analysis_cacheKey sample_platform ''Ship it'' ''great'') = Inr None"
    by (simp add: answering_def)
  have h: "\<not> truthy_string None"
    by simp
  have c1: "replying reply_priority5 (analysis_request prompt)
      = Inr [Choice (Some (Message (Some reply_priority5)))]"
    and c2: "replying obj_a1 (analysis_request prompt) = Inr [Choice (Some (Message (Some obj_a1)))]"
    by (simp_all add: replying_def)
  have f1: "first_content [Choice (Some (Message (Some reply_priority5)))] = Some reply_priority5"
    and f2: "first_content [Choice (Some (Message (Some obj_a1)))] = Some obj_a1"
    by simp_all
  obtain ser1 where s1: "JSON_stringify sample_platform (analysis_json
       \<lparr> priority = Fin 5, estimatedHours = Fin 2, complexity = ''medium'',
         sentiment = ''positive'', tags = [], deadlineUrgency = Fin 5, suggestedSubtasks = [],
         optimalTimeSlot = ''flexible'', confidenceScore = 65 \<rparr>) = Inr ser1"
    using sample_stringify_total by blast
  obtain ser2 where s2: "JSON_stringify sample_platform (analysis_json
       \<lparr> priority = Fin 5, estimatedHours = Fin 2, complexity = ''medium'',
         sentiment = ''positive'', tags = [], deadlineUrgency = Fin 5, suggestedSubtasks = [],
         optimalTimeSlot = ''flexible'', confidenceScore = 55 + 5 \<rparr>) = Inr ser2"
    using sample_stringify_total by blast
  have w: "RedisClient_setex (answering None []) k 3600 ser = Inr ()" for k ser
    by (simp add: answering_def)
  show ?thesis
    using sentiment_computed_locally
      [where ?create1.0 = "replying reply_priority5" and ?create2.0 = "replying obj_a1",
        OF g h p c1 f1 sample_validation(5) sample_validation(1,2) s1 w
          c2 f2 sample_validation(6) sample_validation(3,4) s2 w]
      sample_local_sentiment
    by fastforce
qed

text \<open>
  C8 as stated fails for replies that contain parseable JSON and yet make the call fall
  back. With a description whose local score is positive: the reply \<^verbatim>\<open>{"priority":5}\<close> is
  validated and the sentiment is positive; the reply \<^verbatim>\<open>{"priority":{"toString":1}}\<close> parses,
  but the coercion of its priority throws, the outer \<^verbatim>\<open>catch\<close> returns the fallback, and
  the sentiment is neutral; the reply \<^verbatim>\<open>{"a":1} and {"b":2}\<close> contains a parseable object,
  but the greedy region does not parse, and the sentiment is neutral again.
\<close>

theorem sentiment_depends_on_reply:
  "snd (analyzeTask sample_platform True (answering None reply_priority5) ''Ship it'' ''great''
          None)
     = Inr (Computed \<lparr> priority = Fin 5, estimatedHours = Fin 2, complexity = ''medium'',
         sentiment = ''positive'', tags = [], deadlineUrgency = Fin 5, suggestedSubtasks = [],
         optimalTimeSlot = ''flexible'', confidenceScore = 65 \<rparr>)
   \<and> parse_response sample_platform reply_toString
       = Inr (JObj [(''priority'', JObj [(''toString'', JNum (Fin 1))])])
   \<and> snd (analyzeTask sample_platform True (answering None reply_toString) ''Ship it'' ''great''
          None)
     = Inr (Computed (fallbackAnalysis ''Ship it'' ''great''))
   \<and> first_balanced_region (obj_a1 @ '' and '' @ obj_b2) = Some obj_a1
   \<and> snd (analyzeTask sample_platform True (answering None (obj_a1 @ '' and '' @ obj_b2))
          ''Ship it'' ''great'' None)
     = Inr (Computed (fallbackAnalysis ''Ship it'' ''great''))
   \<and> sentiment (fallbackAnalysis ''Ship it'' ''great'') = ''neutral''"
  by code_simp

end
